theory Spec2Isabelle
  imports Main "HOL-Library.Sublist"
begin

section \<open>Python string and path primitives used by the sync scripts\<close>

text \<open>
  Strings are byte strings (\<open>char list\<close>); the character classes below are the ASCII
  part of Python's \<open>\\d\<close>, \<open>\\w\<close> and \<open>str.isspace\<close>.
\<close>

definition is_digit :: "char \<Rightarrow> bool" where
  "is_digit c = ((48::nat) \<le> of_char c \<and> of_char c \<le> (57::nat))"

definition is_lower :: "char \<Rightarrow> bool" where
  "is_lower c = ((97::nat) \<le> of_char c \<and> of_char c \<le> (122::nat))"

definition is_upper :: "char \<Rightarrow> bool" where
  "is_upper c = ((65::nat) \<le> of_char c \<and> of_char c \<le> (90::nat))"

definition is_word :: "char \<Rightarrow> bool" where
  "is_word c = (is_digit c \<or> is_lower c \<or> is_upper c \<or> c = CHR ''_'')"

definition is_space :: "char \<Rightarrow> bool" where
  "is_space c = ((of_char c :: nat) \<in> {9, 10, 11, 12, 13, 28, 29, 30, 31, 32})"

text \<open>\<open>s.strip()\<close>, \<open>s.lstrip('/')\<close>, \<open>s.upper()\<close>.\<close>

definition strip :: "string \<Rightarrow> string" where
  "strip s = rev (dropWhile is_space (rev (dropWhile is_space s)))"

definition lstrip_slash :: "string \<Rightarrow> string" where
  "lstrip_slash s = dropWhile (\<lambda>c. c = CHR ''/'') s"

definition upper_char :: "char \<Rightarrow> char" where
  "upper_char c = (if is_lower c then char_of ((of_char c :: nat) - 32) else c)"

definition upper :: "string \<Rightarrow> string" where
  "upper s = map upper_char s"

text \<open>\<open>s.split('\\n')\<close>: always at least one piece.\<close>

fun split_nl :: "string \<Rightarrow> string list" where
  "split_nl [] = [[]]"
| "split_nl (c # cs) =
     (if c = CHR 0x0A then [] # split_nl cs
      else (case split_nl cs of
              [] \<Rightarrow> [[c]]
            | l # ls \<Rightarrow> (c # l) # ls))"

text \<open>\<open>s.startswith(p)\<close>.\<close>

definition startswith :: "string \<Rightarrow> string \<Rightarrow> bool" where
  "startswith s p = (take (length p) s = p)"

text \<open>\<open>s.endswith('/')\<close> on a possibly empty string.\<close>

definition endswith_slash :: "string \<Rightarrow> bool" where
  "endswith_slash s = (s \<noteq> [] \<and> last s = CHR ''/'')"

text \<open>\<open>os.path.join(a, b)\<close> and \<open>os.path.dirname(p)\<close> of \<open>posixpath\<close>.\<close>

definition path_join :: "string \<Rightarrow> string \<Rightarrow> string" where
  "path_join a b =
     (if startswith b ''/'' then b
      else if a = [] \<or> endswith_slash a then a @ b
      else a @ ''/'' @ b)"

definition rstrip_slash :: "string \<Rightarrow> string" where
  "rstrip_slash s = rev (dropWhile (\<lambda>c. c = CHR ''/'') (rev s))"

definition dirname :: "string \<Rightarrow> string" where
  "dirname p =
     (let head = rev (dropWhile (\<lambda>c. c \<noteq> CHR ''/'') (rev p))
      in if head \<noteq> [] \<and> \<not> list_all (\<lambda>c. c = CHR ''/'') head
         then rstrip_slash head else head)"

section \<open>RepoSyncer.parse\_log\_entry (repo\_sync.py)\<close>

text \<open>
  A change dictionary \<open>{'revision', 'action', 'path'}\<close>. The revision is
  \<open>None\<close> until a revision line has been seen.
\<close>

record change =
  revision :: "string option"
  action :: string
  path :: string

text \<open>\<open>re.match(r'^r(\\d+)', line)\<close>: group 1, the longest run of digits after the r.\<close>

definition rev_match :: "string \<Rightarrow> string option" where
  "rev_match line =
     (case line of
        [] \<Rightarrow> None
      | c # rest \<Rightarrow>
          if c = CHR ''r'' \<and> takeWhile is_digit rest \<noteq> []
          then Some (takeWhile is_digit rest) else None)"

definition is_change_line :: "string \<Rightarrow> bool" where
  "is_change_line line =
     (startswith line ''A '' \<or> startswith line ''M '' \<or> startswith line ''D '')"

text \<open>The loop body over the lines, threading \<open>current_revision\<close> and \<open>changes\<close>.\<close>

fun parse_lines :: "string list \<Rightarrow> string option \<Rightarrow> change list \<Rightarrow> change list" where
  "parse_lines [] cur changes = changes"
| "parse_lines (line # ls) cur changes =
     (case rev_match line of
        Some r \<Rightarrow> parse_lines ls (Some r) changes
      | None \<Rightarrow>
          if is_change_line line
          then parse_lines ls cur
                 (changes @ [\<lparr>revision = cur, action = take 1 line,
                              path = strip (drop 2 line)\<rparr>])
          else parse_lines ls cur changes)"

definition parse_log_entry :: "string \<Rightarrow> change list" where
  "parse_log_entry log_output = parse_lines (split_nl log_output) None []"

section \<open>The process and file-system boundary\<close>

text \<open>
  Exceptions the scripts can see: \<open>FileNotFoundError\<close> (which
  \<open>run_svn_command\<close> catches by name), any other exception of the runtime, the
  \<open>AttributeError\<close> of calling \<open>.group\<close> on \<open>None\<close>, and the plain
  \<open>Exception(msg)\<close> the scripts raise themselves.
\<close>

datatype exn =
    FileNotFoundError
  | OtherError string
  | AttributeError
  | PyException string

text \<open>Lines the scripts print.\<close>

datatype msg =
    ErrorDuringSync exn
  | FailedToUpdate
  | SyncingChanges
  | UpdatingRepositories
  | SuccessfullySynced
  | FailedToSync
  | SvnNotFound
  | UpdatingRepository string
  | RepositoryUpdated string
  | ErrorUpdating string string
  | RetrievingCommits string
  | ErrorRetrieving string
  | Retrieved nat
  | ProcessingCommit string
  | CopiedModified string
  | ErrorDownloading string string
  | ErrorCopying string exn
  | Deleted string
  | ErrorDeletingStderr string string
  | ErrorDeleting string exn
  | SkippingChange string string
  | CommittingTo string
  | ErrorAdding string
  | Committed string
  | ErrorCommittingStderr string
  | ErrorCommitting exn
  | SyncCompleted

text \<open>
  Everything a run does to the outside, in order: a child process spawned with an
  argument vector, a working directory and added environment variables; the file-system
  calls; the printed lines.
\<close>

datatype event =
    Spawn "string list" "string option" "(string \<times> string) list"
  | Exists string
  | Makedirs string bool
  | Copy2 string string
  | WriteFile string string
  | Print msg

text \<open>
  What the outside answers is not part of the repository: it is a parameter. A child
  process either cannot be started (an exception) or ends with
  \<open>(returncode, stdout, stderr)\<close>; every call may change the outside state \<open>'s\<close>.
\<close>

type_synonym completed = "int \<times> string \<times> string"

record 's os =
  os_spawn :: "string list \<Rightarrow> string option \<Rightarrow> (string \<times> string) list \<Rightarrow> 's
                 \<Rightarrow> (exn + completed) \<times> 's"
  os_exists :: "string \<Rightarrow> 's \<Rightarrow> bool"
  os_makedirs :: "string \<Rightarrow> bool \<Rightarrow> 's \<Rightarrow> (exn + unit) \<times> 's"
  os_copy2 :: "string \<Rightarrow> string \<Rightarrow> 's \<Rightarrow> (exn + unit) \<times> 's"
  os_write :: "string \<Rightarrow> string \<Rightarrow> 's \<Rightarrow> (exn + unit) \<times> 's"

record 's world =
  ost :: 's
  trace :: "event list"

definition emit :: "event \<Rightarrow> 's world \<Rightarrow> 's world" where
  "emit e w = \<lparr>ost = ost w, trace = trace w @ [e]\<rparr>"

definition print :: "msg \<Rightarrow> 's world \<Rightarrow> 's world" where
  "print m w = emit (Print m) w"

definition spawn ::
  "'s os \<Rightarrow> string list \<Rightarrow> string option \<Rightarrow> (string \<times> string) list \<Rightarrow> 's world
     \<Rightarrow> (exn + completed) \<times> 's world" where
  "spawn env argv cwd vars w =
     (case os_spawn env argv cwd vars (ost w) of
        (r, s') \<Rightarrow> (r, \<lparr>ost = s', trace = trace w @ [Spawn argv cwd vars]\<rparr>))"

definition path_exists :: "'s os \<Rightarrow> string \<Rightarrow> 's world \<Rightarrow> bool \<times> 's world" where
  "path_exists env p w = (os_exists env p (ost w), emit (Exists p) w)"

definition makedirs :: "'s os \<Rightarrow> string \<Rightarrow> bool \<Rightarrow> 's world \<Rightarrow> (exn + unit) \<times> 's world" where
  "makedirs env p exist_ok w =
     (case os_makedirs env p exist_ok (ost w) of
        (r, s') \<Rightarrow> (r, \<lparr>ost = s', trace = trace w @ [Makedirs p exist_ok]\<rparr>))"

definition copy2 :: "'s os \<Rightarrow> string \<Rightarrow> string \<Rightarrow> 's world \<Rightarrow> (exn + unit) \<times> 's world" where
  "copy2 env src dst w =
     (case os_copy2 env src dst (ost w) of
        (r, s') \<Rightarrow> (r, \<lparr>ost = s', trace = trace w @ [Copy2 src dst]\<rparr>))"

definition write_text :: "'s os \<Rightarrow> string \<Rightarrow> string \<Rightarrow> 's world \<Rightarrow> (exn + unit) \<times> 's world" where
  "write_text env p content w =
     (case os_write env p content (ost w) of
        (r, s') \<Rightarrow> (r, \<lparr>ost = s', trace = trace w @ [WriteFile p content]\<rparr>))"

section \<open>SVNClient (core/svn.py)\<close>

text \<open>
  A client is its working directory and the optional credentials. Python's truth test
  on \<open>self.username\<close> fails for \<open>None\<close> and for the empty string.
\<close>

record svn_client =
  working_dir :: string
  username :: "string option"
  password :: "string option"

definition truthy :: "string option \<Rightarrow> bool" where
  "truthy x = (case x of None \<Rightarrow> False | Some s \<Rightarrow> s \<noteq> [])"

text \<open>The argument vector \<open>_run_command\<close> hands to \<open>Popen\<close>.\<close>

definition with_credentials :: "svn_client \<Rightarrow> string list \<Rightarrow> string list" where
  "with_credentials c command =
     command
     @ (if truthy (username c) then [''--username'', the (username c)] else [])
     @ (if truthy (password c) then [''--password'', the (password c)] else [])"

text \<open>
  \<open>_run_command\<close>: the result is \<open>(stdout.strip(), stderr.strip(), returncode)\<close>; an
  exception of \<open>Popen\<close> is not caught here.
\<close>

definition run_command ::
  "'s os \<Rightarrow> svn_client \<Rightarrow> string list \<Rightarrow> 's world \<Rightarrow> (exn + string \<times> string \<times> int) \<times> 's world" where
  "run_command env c command w =
     (case spawn env (with_credentials c command) (Some (working_dir c)) [] w of
        (Inl e, w') \<Rightarrow> (Inl e, w')
      | (Inr (code, out, err), w') \<Rightarrow> (Inr (strip out, strip err, code), w'))"

text \<open>The command each verb builds; an optional argument is added when it is truthy.\<close>

definition opt_arg :: "string option \<Rightarrow> string list" where
  "opt_arg x = (if truthy x then [the x] else [])"

definition checkout_cmd :: "string \<Rightarrow> string option \<Rightarrow> string list" where
  "checkout_cmd url p = [''svn'', ''checkout'', url] @ opt_arg p"

definition update_cmd :: "string option \<Rightarrow> string list" where
  "update_cmd p = [''svn'', ''update''] @ opt_arg p"

definition commit_cmd :: "string \<Rightarrow> string list \<Rightarrow> string list" where
  "commit_cmd message paths = [''svn'', ''commit'', ''-m'', message] @ paths"

definition add_cmd :: "string list \<Rightarrow> string list" where
  "add_cmd paths = [''svn'', ''add''] @ paths"

definition delete_cmd :: "string list \<Rightarrow> bool \<Rightarrow> string list" where
  "delete_cmd paths force = [''svn'', ''delete''] @ (if force then [''--force''] else []) @ paths"

definition status_cmd :: "string option \<Rightarrow> string list" where
  "status_cmd p = [''svn'', ''status''] @ opt_arg p"

text \<open>\<open>str(limit)\<close> of a non-negative integer; \<open>if limit:\<close> is false for \<open>None\<close> and 0.\<close>

fun digits_of :: "nat \<Rightarrow> string" where
  "digits_of n =
     (if n < 10 then [char_of (48 + n)]
      else digits_of (n div 10) @ [char_of (48 + n mod 10)])"

definition log_cmd :: "nat option \<Rightarrow> string option \<Rightarrow> string list" where
  "log_cmd limit p =
     [''svn'', ''log'']
     @ (case limit of None \<Rightarrow> [] | Some n \<Rightarrow> if n = 0 then [] else [''-l'', digits_of n])
     @ opt_arg p"

definition diff_cmd :: "string option \<Rightarrow> string option \<Rightarrow> string list" where
  "diff_cmd p r =
     [''svn'', ''diff''] @ (if truthy r then [''-r'', the r] else []) @ opt_arg p"

definition revert_cmd :: "string list \<Rightarrow> bool \<Rightarrow> string list" where
  "revert_cmd paths recursive =
     [''svn'', ''revert''] @ (if recursive then [''-R''] else []) @ paths"

definition cleanup_cmd :: "string list" where
  "cleanup_cmd = [''svn'', ''cleanup'']"

definition info_cmd :: "string option \<Rightarrow> string list" where
  "info_cmd p = [''svn'', ''info''] @ opt_arg p"

definition list_cmd :: "string option \<Rightarrow> string list" where
  "list_cmd url = [''svn'', ''list''] @ opt_arg url"

text \<open>Verbs returning \<open>code == 0\<close>, and verbs returning the standard output whatever the code.\<close>

definition run_bool ::
  "'s os \<Rightarrow> svn_client \<Rightarrow> string list \<Rightarrow> 's world \<Rightarrow> (exn + bool) \<times> 's world" where
  "run_bool env c command w =
     (case run_command env c command w of
        (Inl e, w') \<Rightarrow> (Inl e, w')
      | (Inr (out, err, code), w') \<Rightarrow> (Inr (code = 0), w'))"

definition run_text ::
  "'s os \<Rightarrow> svn_client \<Rightarrow> string list \<Rightarrow> 's world \<Rightarrow> (exn + string) \<times> 's world" where
  "run_text env c command w =
     (case run_command env c command w of
        (Inl e, w') \<Rightarrow> (Inl e, w')
      | (Inr (out, err, code), w') \<Rightarrow> (Inr out, w'))"

definition client_checkout where
  "client_checkout env c url p = run_bool env c (checkout_cmd url p)"

definition client_update where
  "client_update env c p = run_bool env c (update_cmd p)"

definition client_commit where
  "client_commit env c message paths = run_bool env c (commit_cmd message paths)"

definition client_add where
  "client_add env c paths = run_bool env c (add_cmd paths)"

definition client_delete where
  "client_delete env c paths force = run_bool env c (delete_cmd paths force)"

definition client_status where
  "client_status env c p = run_text env c (status_cmd p)"

definition client_log where
  "client_log env c limit p = run_text env c (log_cmd limit p)"

definition client_diff where
  "client_diff env c p r = run_text env c (diff_cmd p r)"

definition client_revert where
  "client_revert env c paths recursive = run_bool env c (revert_cmd paths recursive)"

definition client_cleanup where
  "client_cleanup env c = run_bool env c cleanup_cmd"

definition client_info where
  "client_info env c p = run_text env c (info_cmd p)"

definition client_list_files where
  "client_list_files env c url = run_text env c (list_cmd url)"

section \<open>ioutil (core/ioutil.py)\<close>

definition ensure_dir :: "'s os \<Rightarrow> string \<Rightarrow> 's world \<Rightarrow> (exn + unit) \<times> 's world" where
  "ensure_dir env p w =
     (case path_exists env p w of
        (True, w1) \<Rightarrow> (Inr (), w1)
      | (False, w1) \<Rightarrow> makedirs env p False w1)"

definition copy_file :: "'s os \<Rightarrow> string \<Rightarrow> string \<Rightarrow> 's world \<Rightarrow> (exn + unit) \<times> 's world" where
  "copy_file env src dst w = copy2 env src dst w"

section \<open>RepoSyncer (modules/unity/repo\_sync.py)\<close>

record repo_syncer =
  repo1 :: svn_client
  repo2 :: svn_client
  repo1_path :: string
  repo2_path :: string

definition RepoSyncer ::
  "string \<Rightarrow> string \<Rightarrow> string option \<Rightarrow> string option \<Rightarrow> repo_syncer" where
  "RepoSyncer p1 p2 u pw =
     \<lparr>repo1 = \<lparr>working_dir = p1, username = u, password = pw\<rparr>,
      repo2 = \<lparr>working_dir = p2, username = u, password = pw\<rparr>,
      repo1_path = p1, repo2_path = p2\<rparr>"

text \<open>\<open>update_repos\<close>: \<open>and\<close> does not update the second repository when the first fails.\<close>

definition update_repos :: "'s os \<Rightarrow> repo_syncer \<Rightarrow> 's world \<Rightarrow> (exn + bool) \<times> 's world" where
  "update_repos env sy w =
     (case client_update env (repo1 sy) None w of
        (Inl e, w1) \<Rightarrow> (Inl e, w1)
      | (Inr False, w1) \<Rightarrow> (Inr False, w1)
      | (Inr True, w1) \<Rightarrow> client_update env (repo2 sy) None w1)"

text \<open>The \<open>src_path\<close> and \<open>dst_path\<close> of a change.\<close>

definition src_path :: "repo_syncer \<Rightarrow> change \<Rightarrow> string" where
  "src_path sy ch = path_join (repo1_path sy) (path ch)"

definition dst_path :: "repo_syncer \<Rightarrow> change \<Rightarrow> string" where
  "dst_path sy ch = path_join (repo2_path sy) (path ch)"

text \<open>
  The body of the loop of \<open>sync_changes\<close> for one change: the new \<open>files_to_commit\<close>,
  or the exception that leaves the loop.
\<close>

definition replay_change ::
  "'s os \<Rightarrow> repo_syncer \<Rightarrow> change \<Rightarrow> string list \<Rightarrow> 's world
     \<Rightarrow> (exn + string list) \<times> 's world" where
  "replay_change env sy ch files w =
     (if action ch = ''A'' \<or> action ch = ''M'' then
        (case ensure_dir env (dirname (dst_path sy ch)) w of
           (Inl e, w1) \<Rightarrow> (Inl e, w1)
         | (Inr u, w1) \<Rightarrow>
             (case copy_file env (src_path sy ch) (dst_path sy ch) w1 of
                (Inl e, w2) \<Rightarrow> (Inl e, w2)
              | (Inr u, w2) \<Rightarrow>
                  if action ch = ''A'' then
                    (case client_add env (repo2 sy) [dst_path sy ch] w2 of
                       (Inl e, w3) \<Rightarrow> (Inl e, w3)
                     | (Inr b, w3) \<Rightarrow> (Inr (files @ [dst_path sy ch]), w3))
                  else (Inr (files @ [dst_path sy ch]), w2)))
      else if action ch = ''D'' then
        (case path_exists env (dst_path sy ch) w of
           (True, w1) \<Rightarrow>
             (case client_delete env (repo2 sy) [dst_path sy ch] False w1 of
                (Inl e, w2) \<Rightarrow> (Inl e, w2)
              | (Inr b, w2) \<Rightarrow> (Inr (files @ [dst_path sy ch]), w2))
         | (False, w1) \<Rightarrow> (Inr files, w1))
      else (Inr files, w))"

fun replay_changes ::
  "'s os \<Rightarrow> repo_syncer \<Rightarrow> change list \<Rightarrow> string list \<Rightarrow> 's world
     \<Rightarrow> (exn + string list) \<times> 's world" where
  "replay_changes env sy [] files w = (Inr files, w)"
| "replay_changes env sy (ch # chs) files w =
     (case replay_change env sy ch files w of
        (Inl e, w1) \<Rightarrow> (Inl e, w1)
      | (Inr files1, w1) \<Rightarrow> replay_changes env sy chs files1 w1)"

text \<open>The \<open>try\<close> block of \<open>sync_changes\<close>, and \<open>sync_changes\<close> with its handler.\<close>

definition sync_body :: "'s os \<Rightarrow> repo_syncer \<Rightarrow> 's world \<Rightarrow> (exn + bool) \<times> 's world" where
  "sync_body env sy w =
     (case client_log env (repo1 sy) (Some 100) None w of
        (Inl e, w1) \<Rightarrow> (Inl e, w1)
      | (Inr log_output, w1) \<Rightarrow>
          (case replay_changes env sy (parse_log_entry log_output) [] w1 of
             (Inl e, w2) \<Rightarrow> (Inl e, w2)
           | (Inr files_to_commit, w2) \<Rightarrow>
               if files_to_commit \<noteq> []
               then client_commit env (repo2 sy) ''Synced changes from repo1'' files_to_commit w2
               else (Inr True, w2)))"

definition sync_changes :: "'s os \<Rightarrow> repo_syncer \<Rightarrow> 's world \<Rightarrow> bool \<times> 's world" where
  "sync_changes env sy w =
     (case sync_body env sy w of
        (Inl e, w1) \<Rightarrow> (False, print (ErrorDuringSync e) w1)
      | (Inr b, w1) \<Rightarrow> (b, w1))"

text \<open>\<open>main\<close>, for a given syncer; an exception of \<open>update_repos\<close> is not caught.\<close>

definition main :: "'s os \<Rightarrow> repo_syncer \<Rightarrow> 's world \<Rightarrow> (exn + unit) \<times> 's world" where
  "main env sy w =
     (case update_repos env sy (print UpdatingRepositories w) of
        (Inl e, w1) \<Rightarrow> (Inl e, w1)
      | (Inr False, w1) \<Rightarrow> (Inr (), print FailedToUpdate w1)
      | (Inr True, w1) \<Rightarrow>
          (case sync_changes env sy (print SyncingChanges w1) of
             (True, w2) \<Rightarrow> (Inr (), print SuccessfullySynced w2)
           | (False, w2) \<Rightarrow> (Inr (), print FailedToSync w2)))"

section \<open>The regular expressions of get\_recent\_commits\<close>

text \<open>
  \<open>find_sub pat s\<close> cuts \<open>s\<close> at the first occurrence of \<open>pat\<close>: the text before it
  and the text after it.
\<close>

fun find_sub :: "string \<Rightarrow> string \<Rightarrow> (string \<times> string) option" where
  "find_sub pat [] = (if pat = [] then Some ([], []) else None)"
| "find_sub pat (c # cs) =
     (if startswith (c # cs) pat then Some ([], drop (length pat) (c # cs))
      else (case find_sub pat cs of
              None \<Rightarrow> None
            | Some (b, a) \<Rightarrow> Some (c # b, a)))"

lemma find_sub_length: "find_sub pat s = Some (b, a) \<Longrightarrow> length a \<le> length s"
  by (induction s arbitrary: b a) (auto split: if_splits option.splits)

lemma find_sub_gt_length: "find_sub ''>'' s = Some (b, a) \<Longrightarrow> length a < length s"
  by (induction s arbitrary: b a) (auto simp: startswith_def split: if_splits option.splits)

text \<open>
  \<open>re.findall(r"<tag.*?>(.*?)</tag>", s, re.DOTALL)\<close>, with \<open>opening = "<tag"\<close> and
  \<open>closing = "</tag>"\<close>: from the first \<open>opening\<close>, the first \<open>>\<close> after it, then the
  text up to the first \<open>closing\<close>; the search goes on after that \<open>closing\<close>. When the
  leftmost \<open>opening\<close> has no \<open>>\<close> or no \<open>closing\<close> after it, no later one has.
\<close>

function findall_tag :: "string \<Rightarrow> string \<Rightarrow> string \<Rightarrow> string list" where
  "findall_tag opening closing s =
     (case find_sub opening s of
        None \<Rightarrow> []
      | Some (b1, r1) \<Rightarrow>
          (case find_sub ''>'' r1 of
             None \<Rightarrow> []
           | Some (b2, r2) \<Rightarrow>
               (case find_sub closing r2 of
                  None \<Rightarrow> []
                | Some (g, r3) \<Rightarrow> g # findall_tag opening closing r3)))"
  by pat_completeness auto
termination
proof (relation "measure (\<lambda>(opening, closing, s). length s)")
  show "wf (measure (\<lambda>(opening, closing, s). length s))" by simp
next
  fix otag ctag s x2 b1 r1 x2a b2 r2 x2b g r3
  assume "find_sub otag s = Some x2" "(b1, r1) = x2"
    "find_sub ''>'' r1 = Some x2a" "(b2, r2) = x2a"
    "find_sub ctag r2 = Some x2b" "(g, r3) = x2b"
  then have "length r1 \<le> length s" "length r2 < length r1" "length r3 \<le> length r2"
    using find_sub_length find_sub_gt_length by metis+
  then show "((otag, ctag, r3), (otag, ctag, s))
               \<in> measure (\<lambda>(opening, closing, s). length s)"
    by simp
qed

declare findall_tag.simps [simp del]

text \<open>\<open>re.search(r"<paths>(.*?)</paths>", block, re.DOTALL)\<close>, group 1.\<close>

definition search_between :: "string \<Rightarrow> string \<Rightarrow> string \<Rightarrow> string option" where
  "search_between opening closing s =
     (case find_sub opening s of
        None \<Rightarrow> None
      | Some (b1, r1) \<Rightarrow>
          (case find_sub closing r1 of
             None \<Rightarrow> None
           | Some (g, r2) \<Rightarrow> Some g))"

text \<open>
  \<open>re.search(pre + "(cls+)" + '"', s)\<close>, group 1, for \<open>revision="(\\d+)"\<close> and
  \<open>action="(\\w+)"\<close> (\<open>pre\<close> ends with the opening quote): at the leftmost place where
  \<open>pre\<close> is followed by a non-empty run of the class and then a double quote.
\<close>

fun search_attr :: "string \<Rightarrow> (char \<Rightarrow> bool) \<Rightarrow> string \<Rightarrow> string option" where
  "search_attr pre cls [] = None"
| "search_attr pre cls (c # cs) =
     (let r = drop (length pre) (c # cs)
      in if startswith (c # cs) pre \<and> takeWhile cls r \<noteq> []
            \<and> startswith (dropWhile cls r) [CHR 0x22]
         then Some (takeWhile cls r)
         else search_attr pre cls cs)"

definition revision_pre :: string where
  "revision_pre = ''revision='' @ [CHR 0x22]"

definition action_pre :: string where
  "action_pre = ''action='' @ [CHR 0x22]"

text \<open>
  \<open>re.search(r">(.*?)</path>", s)\<close>, group 1, without \<open>re.DOTALL\<close>: the dot does not
  match a newline, so from a \<open>>\<close> the first \<open></path>\<close> must come before any newline.
\<close>

fun search_path_value :: "string \<Rightarrow> string option" where
  "search_path_value [] = None"
| "search_path_value (c # cs) =
     (if c = CHR ''>'' then
        (case find_sub ''</path>'' cs of
           Some (g, r) \<Rightarrow> if CHR 0x0A \<in> set g then search_path_value cs else Some g
         | None \<Rightarrow> search_path_value cs)
      else search_path_value cs)"

section \<open>SVNRepoSync (modules/unity/sync\_between\_repos.py)\<close>

record svn_repo_sync =
  repo1_url :: string
  sync_repo2_path :: string
  sync_username :: "string option"
  sync_password :: "string option"

record changed_path =
  cp_path :: string
  cp_action :: string

record commit =
  commit_revision :: string
  changed_paths :: "changed_path list"

text \<open>
  \<open>run_svn_command\<close>: the credentials go into the child's environment when user name,
  password and \<open>repo_path\<close> are all truthy; a \<open>FileNotFoundError\<close> becomes return
  code 1, any other exception propagates.
\<close>

definition credential_env :: "svn_repo_sync \<Rightarrow> string option \<Rightarrow> (string \<times> string) list" where
  "credential_env sy repo_path =
     (if truthy (sync_username sy) \<and> truthy (sync_password sy) \<and> truthy repo_path
      then [(''SVN_USER'', the (sync_username sy)), (''SVN_PASSWORD'', the (sync_password sy))]
      else [])"

definition run_svn_command ::
  "'s os \<Rightarrow> svn_repo_sync \<Rightarrow> string list \<Rightarrow> string option \<Rightarrow> 's world
     \<Rightarrow> (exn + completed) \<times> 's world" where
  "run_svn_command env sy command repo_path w =
     (case spawn env (''svn'' # command) repo_path (credential_env sy repo_path) w of
        (Inl FileNotFoundError, w1) \<Rightarrow>
          (Inr (1, [], ''svn command not found''), print SvnNotFound w1)
      | (Inl e, w1) \<Rightarrow> (Inl e, w1)
      | (Inr r, w1) \<Rightarrow> (Inr r, w1))"

definition update_repo ::
  "'s os \<Rightarrow> svn_repo_sync \<Rightarrow> string \<Rightarrow> 's world \<Rightarrow> (exn + unit) \<times> 's world" where
  "update_repo env sy repo_path w =
     (case run_svn_command env sy [''update''] (Some repo_path)
             (print (UpdatingRepository repo_path) w) of
        (Inl e, w1) \<Rightarrow> (Inl e, w1)
      | (Inr (return_code, out, err), w1) \<Rightarrow>
          if return_code = 0 then (Inr (), print (RepositoryUpdated repo_path) w1)
          else (Inl (PyException (''SVN update failed: '' @ err)),
                print (ErrorUpdating repo_path err) w1))"

text \<open>
  One path entry of a paths block (lines 92 to 96): \<open>.group(1)\<close> on a failed search
  raises \<open>AttributeError\<close>; an entry without an action is left out.
\<close>

definition parse_path_entry :: "string \<Rightarrow> exn + changed_path list" where
  "parse_path_entry path_entry =
     (let action_match = search_attr action_pre is_word path_entry
      in case search_path_value path_entry of
           None \<Rightarrow> Inl AttributeError
         | Some path_value \<Rightarrow>
             (case action_match of
                Some a \<Rightarrow> Inr [\<lparr>cp_path = path_value, cp_action = upper a\<rparr>]
              | None \<Rightarrow> Inr []))"

fun parse_path_entries :: "string list \<Rightarrow> changed_path list \<Rightarrow> exn + changed_path list" where
  "parse_path_entries [] acc = Inr acc"
| "parse_path_entries (e # es) acc =
     (case parse_path_entry e of
        Inl x \<Rightarrow> Inl x
      | Inr ps \<Rightarrow> parse_path_entries es (acc @ ps))"

definition parse_block :: "string \<Rightarrow> exn + commit list" where
  "parse_block block =
     (case search_attr revision_pre is_digit block of
        None \<Rightarrow> Inr []
      | Some r \<Rightarrow>
          (case search_between ''<paths>'' ''</paths>'' block of
             None \<Rightarrow> Inr [\<lparr>commit_revision = r, changed_paths = []\<rparr>]
           | Some paths_block \<Rightarrow>
               (case parse_path_entries (findall_tag ''<path'' ''</path>'' paths_block) [] of
                  Inl x \<Rightarrow> Inl x
                | Inr ps \<Rightarrow> Inr [\<lparr>commit_revision = r, changed_paths = ps\<rparr>])))"

fun parse_blocks :: "string list \<Rightarrow> commit list \<Rightarrow> exn + commit list" where
  "parse_blocks [] commits = Inr commits"
| "parse_blocks (b # bs) commits =
     (case parse_block b of
        Inl x \<Rightarrow> Inl x
      | Inr cs \<Rightarrow> parse_blocks bs (commits @ cs))"

definition parse_xml_log :: "string \<Rightarrow> exn + commit list" where
  "parse_xml_log out = parse_blocks (findall_tag ''<logentry'' ''</logentry>'' out) []"

definition get_recent_commits ::
  "'s os \<Rightarrow> svn_repo_sync \<Rightarrow> string \<Rightarrow> nat \<Rightarrow> 's world \<Rightarrow> (exn + commit list) \<times> 's world" where
  "get_recent_commits env sy repo_url limit w =
     (case run_svn_command env sy [''log'', repo_url, ''-l'', digits_of limit, ''--xml'']
             (Some repo_url) (print (RetrievingCommits repo_url) w) of
        (Inl e, w1) \<Rightarrow> (Inl e, w1)
      | (Inr (return_code, out, err), w1) \<Rightarrow>
          if return_code \<noteq> 0 then (Inr [], print (ErrorRetrieving err) w1)
          else (case parse_xml_log out of
                  Inl x \<Rightarrow> (Inl x, w1)
                | Inr commits \<Rightarrow> (Inr commits, print (Retrieved (length commits)) w1)))"

text \<open>
  \<open>svn_delete\<close>: a failed delete raises inside the \<open>try\<close>, the handler prints and
  raises again.
\<close>

definition svn_delete ::
  "'s os \<Rightarrow> svn_repo_sync \<Rightarrow> string \<Rightarrow> 's world \<Rightarrow> (exn + unit) \<times> 's world" where
  "svn_delete env sy p w =
     (case run_svn_command env sy [''delete'', p, ''--force''] (Some (sync_repo2_path sy)) w of
        (Inl e, w1) \<Rightarrow> (Inl e, print (ErrorDeleting p e) w1)
      | (Inr (return_code, out, err), w1) \<Rightarrow>
          if return_code \<noteq> 0
          then (let e = PyException (''SVN delete failed: '' @ err)
                in (Inl e, print (ErrorDeleting p e) (print (ErrorDeletingStderr p err) w1)))
          else (Inr (), w1))"

text \<open>The \<open>repo1_path\<close> and \<open>repo2_path\<close> of a change in \<open>sync_changes\<close>.\<close>

definition source_of :: "svn_repo_sync \<Rightarrow> changed_path \<Rightarrow> string" where
  "source_of sy change = path_join (repo1_url sy) (cp_path change)"

definition target_of :: "svn_repo_sync \<Rightarrow> changed_path \<Rightarrow> string" where
  "target_of sy change = path_join (sync_repo2_path sy) (lstrip_slash (cp_path change))"

text \<open>The \<open>try\<close> block of an ADD, MODIFY or REPLACE change.\<close>

definition write_body ::
  "'s os \<Rightarrow> svn_repo_sync \<Rightarrow> changed_path \<Rightarrow> 's world \<Rightarrow> (exn + unit) \<times> 's world" where
  "write_body env sy change w =
     (case makedirs env (dirname (target_of sy change)) True w of
        (Inl e, w1) \<Rightarrow> (Inl e, w1)
      | (Inr u, w1) \<Rightarrow>
          (case run_svn_command env sy [''cat'', source_of sy change] (Some (repo1_url sy)) w1 of
             (Inl e, w2) \<Rightarrow> (Inl e, w2)
           | (Inr (return_code, out, err), w2) \<Rightarrow>
               if return_code = 0 then
                 (case write_text env (target_of sy change) out w2 of
                    (Inl e, w3) \<Rightarrow> (Inl e, w3)
                  | (Inr u, w3) \<Rightarrow> (Inr (), print (CopiedModified (cp_path change)) w3))
               else (Inr (), print (ErrorDownloading (cp_path change) err) w2)))"

text \<open>The \<open>try\<close> block of a DELETE change.\<close>

definition delete_body ::
  "'s os \<Rightarrow> svn_repo_sync \<Rightarrow> changed_path \<Rightarrow> 's world \<Rightarrow> (exn + unit) \<times> 's world" where
  "delete_body env sy change w =
     (case path_exists env (target_of sy change) w of
        (True, w1) \<Rightarrow>
          (case svn_delete env sy (target_of sy change) w1 of
             (Inl e, w2) \<Rightarrow> (Inl e, w2)
           | (Inr u, w2) \<Rightarrow> (Inr (), print (Deleted (cp_path change)) w2))
      | (False, w1) \<Rightarrow> (Inr (), w1))"

text \<open>One change of a commit, with the handlers of its \<open>try\<close> blocks.\<close>

definition sync_change :: "'s os \<Rightarrow> svn_repo_sync \<Rightarrow> changed_path \<Rightarrow> 's world \<Rightarrow> 's world" where
  "sync_change env sy change w =
     (let act = cp_action change
      in if act = ''ADD'' \<or> act = ''MODIFY'' \<or> act = ''REPLACE'' then
           (case write_body env sy change w of
              (Inl e, w1) \<Rightarrow> print (ErrorCopying (cp_path change) e) w1
            | (Inr u, w1) \<Rightarrow> w1)
         else if act = ''DELETE'' then
           (case delete_body env sy change w of
              (Inl e, w1) \<Rightarrow> print (ErrorDeleting (cp_path change) e) w1
            | (Inr u, w1) \<Rightarrow> w1)
         else print (SkippingChange act (cp_path change)) w)"

fun sync_paths :: "'s os \<Rightarrow> svn_repo_sync \<Rightarrow> changed_path list \<Rightarrow> 's world \<Rightarrow> 's world" where
  "sync_paths env sy [] w = w"
| "sync_paths env sy (change # cs) w = sync_paths env sy cs (sync_change env sy change w)"

fun SVNRepoSync_sync_changes ::
  "'s os \<Rightarrow> svn_repo_sync \<Rightarrow> commit list \<Rightarrow> 's world \<Rightarrow> 's world" where
  "SVNRepoSync_sync_changes env sy [] w = w"
| "SVNRepoSync_sync_changes env sy (c # commits) w =
     SVNRepoSync_sync_changes env sy commits
       (sync_paths env sy (changed_paths c) (print (ProcessingCommit (commit_revision c)) w))"

text \<open>\<open>commit_changes\<close>: the \<open>try\<close> block, and the handler that prints and raises again.\<close>

definition commit_body ::
  "'s os \<Rightarrow> svn_repo_sync \<Rightarrow> string \<Rightarrow> 's world \<Rightarrow> (exn + unit) \<times> 's world" where
  "commit_body env sy message w =
     (case run_svn_command env sy [''add'', ''--force'', ''.''] (Some (sync_repo2_path sy))
             (print (CommittingTo (sync_repo2_path sy)) w) of
        (Inl e, w1) \<Rightarrow> (Inl e, w1)
      | (Inr (add_code, add_out, add_err), w1) \<Rightarrow>
          (case run_svn_command env sy [''commit'', ''-m'', message] (Some (sync_repo2_path sy))
                  (if add_code \<noteq> 0 then print (ErrorAdding add_err) w1 else w1) of
             (Inl e, w2) \<Rightarrow> (Inl e, w2)
           | (Inr (return_code, out, err), w2) \<Rightarrow>
               if return_code = 0 then (Inr (), print (Committed (sync_repo2_path sy)) w2)
               else (Inl (PyException (''SVN commit failed: '' @ err)),
                     print (ErrorCommittingStderr err) w2)))"

definition commit_changes ::
  "'s os \<Rightarrow> svn_repo_sync \<Rightarrow> string \<Rightarrow> 's world \<Rightarrow> (exn + unit) \<times> 's world" where
  "commit_changes env sy message w =
     (case commit_body env sy message w of
        (Inl e, w1) \<Rightarrow> (Inl e, print (ErrorCommitting e) w1)
      | (Inr u, w1) \<Rightarrow> (Inr (), w1))"

text \<open>The script: update, fetch the log, replay, commit. An exception ends the run.\<close>

definition SVNRepoSync_main ::
  "'s os \<Rightarrow> svn_repo_sync \<Rightarrow> 's world \<Rightarrow> (exn + unit) \<times> 's world" where
  "SVNRepoSync_main env sy w =
     (case update_repo env sy (sync_repo2_path sy) w of
        (Inl e, w1) \<Rightarrow> (Inl e, w1)
      | (Inr u, w1) \<Rightarrow>
          (case get_recent_commits env sy (repo1_url sy) 100 w1 of
             (Inl e, w2) \<Rightarrow> (Inl e, w2)
           | (Inr commits, w2) \<Rightarrow>
               (case commit_changes env sy ''Sync changes from repo1''
                       (SVNRepoSync_sync_changes env sy commits w2) of
                  (Inl e, w3) \<Rightarrow> (Inl e, w3)
                | (Inr u, w3) \<Rightarrow> (Inr (), print SyncCompleted w3))))"

section \<open>A reference environment for concrete runs\<close>

text \<open>
  The theorems below hold for every environment. To run the scripts on concrete inputs,
  this is one small environment: files with their contents, directories, the text
  \<open>svn log\<close> prints, and the svn verbs that exit with status 1 (a verb everywhere,
  or \<open>verb in dir\<close> for one working directory). There,
  \<open>svn delete\<close> removes the named files, \<open>svn cat\<close> prints a file, copying needs
  the source file, and the other verbs do nothing and exit with 0.
\<close>

record sim =
  sim_files :: "(string \<times> string) list"
  sim_dirs :: "string list"
  sim_log :: string
  sim_failing :: "string list"

definition sim_put :: "string \<Rightarrow> string \<Rightarrow> sim \<Rightarrow> sim" where
  "sim_put p content s = s\<lparr>sim_files := (p, content) # filter (\<lambda>(q, c). q \<noteq> p) (sim_files s)\<rparr>"

definition sim_spawn ::
  "string list \<Rightarrow> string option \<Rightarrow> (string \<times> string) list \<Rightarrow> sim \<Rightarrow> (exn + completed) \<times> sim" where
  "sim_spawn argv cwd vars s =
     (let verb = (case argv of a # v # rest \<Rightarrow> v | _ \<Rightarrow> [])
      in if verb \<in> set (sim_failing s)
            \<or> (case cwd of None \<Rightarrow> False | Some d \<Rightarrow> verb @ '' in '' @ d \<in> set (sim_failing s))
         then (Inr (1, [], ''svn: E000000: '' @ verb), s)
         else if verb = ''log'' then (Inr (0, sim_log s, []), s)
         else if verb = ''cat'' then
           (case (case drop 2 argv of [] \<Rightarrow> None | p # rest \<Rightarrow> map_of (sim_files s) p) of
              Some content \<Rightarrow> (Inr (0, content, []), s)
            | None \<Rightarrow> (Inr (1, [], ''svn: E200009''), s))
         else if verb = ''delete'' then
           (Inr (0, [], []), s\<lparr>sim_files := filter (\<lambda>(q, c). q \<notin> set (drop 2 argv)) (sim_files s)\<rparr>)
         else (Inr (0, [], []), s))"

definition sim_exists :: "string \<Rightarrow> sim \<Rightarrow> bool" where
  "sim_exists p s = (map_of (sim_files s) p \<noteq> None \<or> p \<in> set (sim_dirs s))"

definition sim_makedirs :: "string \<Rightarrow> bool \<Rightarrow> sim \<Rightarrow> (exn + unit) \<times> sim" where
  "sim_makedirs p exist_ok s =
     (if p = [] then (Inl FileNotFoundError, s)
      else if sim_exists p s then
        (if exist_ok \<and> p \<in> set (sim_dirs s) then (Inr (), s)
         else (Inl (OtherError ''FileExistsError''), s))
      else (Inr (), s\<lparr>sim_dirs := p # sim_dirs s\<rparr>))"

definition sim_copy2 :: "string \<Rightarrow> string \<Rightarrow> sim \<Rightarrow> (exn + unit) \<times> sim" where
  "sim_copy2 src dst s =
     (case map_of (sim_files s) src of
        None \<Rightarrow> (Inl FileNotFoundError, s)
      | Some content \<Rightarrow> (Inr (), sim_put dst content s))"

definition sim_write :: "string \<Rightarrow> string \<Rightarrow> sim \<Rightarrow> (exn + unit) \<times> sim" where
  "sim_write p content s = (Inr (), sim_put p content s)"

definition sim_os :: "sim os" where
  "sim_os = \<lparr>os_spawn = sim_spawn, os_exists = sim_exists, os_makedirs = sim_makedirs,
             os_copy2 = sim_copy2, os_write = sim_write\<rparr>"

definition start :: "sim \<Rightarrow> sim world" where
  "start s = \<lparr>ost = s, trace = []\<rparr>"

section \<open>Notions used to state the properties\<close>




text \<open>The action letters the line parser lets through.\<close>

definition known_letter :: "change \<Rightarrow> bool" where
  "known_letter c = (action c = ''A'' \<or> action c = ''M'' \<or> action c = ''D'')"

text \<open>Concrete set-ups for the runs: a syncer of each script and small outside states.\<close>

definition demo_sync :: svn_repo_sync where
  "demo_sync = \<lparr>repo1_url = ''svn://host/repo'', sync_repo2_path = ''/dst'',
                 sync_username = None, sync_password = None\<rparr>"

definition demo_syncer :: repo_syncer where
  "demo_syncer = RepoSyncer ''/src'' ''/dst'' None None"

definition demo_state :: sim where
  "demo_state = \<lparr>sim_files = [(''/trunk/a.txt'', ''new text'')], sim_dirs = [''/dst''],
                  sim_log = [], sim_failing = []\<rparr>"

definition demo_replace :: changed_path where
  "demo_replace = \<lparr>cp_path = ''/trunk/a.txt'', cp_action = ''REPLACE''\<rparr>"

definition demo_unknown :: changed_path where
  "demo_unknown = \<lparr>cp_path = ''/trunk/a.txt'', cp_action = ''X''\<rparr>"

definition demo_x_change :: change where
  "demo_x_change = \<lparr>revision = Some ''1'', action = ''X'', path = ''foo''\<rparr>"

section \<open>One step of each primitive\<close>

lemma print_eq: "print m w = \<lparr>ost = ost w, trace = trace w @ [Print m]\<rparr>"
  by (simp add: print_def emit_def)

lemma path_exists_eq:
  "path_exists env p w = (os_exists env p (ost w), \<lparr>ost = ost w, trace = trace w @ [Exists p]\<rparr>)"
  by (simp add: path_exists_def emit_def)

lemma spawn_step:
  "os_spawn env argv cwd vars (ost w) = (r, s') \<Longrightarrow>
   spawn env argv cwd vars w = (r, \<lparr>ost = s', trace = trace w @ [Spawn argv cwd vars]\<rparr>)"
  by (simp add: spawn_def)

lemma makedirs_step:
  "os_makedirs env p ok (ost w) = (r, s') \<Longrightarrow>
   makedirs env p ok w = (r, \<lparr>ost = s', trace = trace w @ [Makedirs p ok]\<rparr>)"
  by (simp add: makedirs_def)


lemma write_text_step:
  "os_write env p c (ost w) = (r, s') \<Longrightarrow>
   write_text env p c w = (r, \<lparr>ost = s', trace = trace w @ [WriteFile p c]\<rparr>)"
  by (simp add: write_text_def)

text \<open>An svn command of SVNRepoSync whose child process ran to its end.\<close>

lemma run_svn_command_step:
  "os_spawn env (''svn'' # command) repo_path (credential_env sy repo_path) (ost w)
     = (Inr r, s') \<Longrightarrow>
   run_svn_command env sy command repo_path w
     = (Inr r, \<lparr>ost = s', trace = trace w
          @ [Spawn (''svn'' # command) repo_path (credential_env sy repo_path)]\<rparr>)"
  by (simp add: run_svn_command_def spawn_step)

lemma run_command_step:
  "os_spawn env (with_credentials c command) (Some (working_dir c)) [] (ost w)
     = (Inr (code, out, err), s') \<Longrightarrow>
   run_command env c command w
     = (Inr (strip out, strip err, code),
        \<lparr>ost = s', trace = trace w
          @ [Spawn (with_credentials c command) (Some (working_dir c)) []]\<rparr>)"
  by (simp add: run_command_def spawn_step)

text \<open>
  Events of a run: \<open>spawns_verb v e\<close> holds when \<open>e\<close> starts \<open>svn v\<close>;
  \<open>new_events w w'\<close> are the events of \<open>w'\<close> after those of \<open>w\<close>;
  \<open>grows P w w'\<close> says that \<open>w'\<close> has the events of \<open>w\<close> and then only events
  satisfying \<open>P\<close>.
\<close>

definition spawns_verb :: "string \<Rightarrow> event \<Rightarrow> bool" where
  "spawns_verb v e = (case e of Spawn argv cwd vars \<Rightarrow> take 2 argv = [''svn'', v] | _ \<Rightarrow> False)"

definition new_events :: "'s world \<Rightarrow> 's world \<Rightarrow> event list" where
  "new_events w w' = drop (length (trace w)) (trace w')"

definition grows :: "(event \<Rightarrow> bool) \<Rightarrow> 's world \<Rightarrow> 's world \<Rightarrow> bool" where
  "grows P w w' = (\<exists>evs. trace w' = trace w @ evs \<and> list_all P evs)"

text \<open>The replay of RepoSyncer spawns only \<open>svn add\<close> and \<open>svn delete\<close>.\<close>

definition replay_event :: "event \<Rightarrow> bool" where
  "replay_event e = (case e of Spawn argv cwd vars \<Rightarrow>
       take 2 argv = [''svn'', ''add''] \<or> take 2 argv = [''svn'', ''delete'']
     | Print m \<Rightarrow> False | WriteFile p c \<Rightarrow> False | _ \<Rightarrow> True)"

text \<open>The argument vectors of the log fetch and of the commit of RepoSyncer.\<close>

definition log_argv :: "repo_syncer \<Rightarrow> string list" where
  "log_argv sy = with_credentials (repo1 sy) (log_cmd (Some 100) None)"

definition commit_argv :: "repo_syncer \<Rightarrow> string list \<Rightarrow> string list" where
  "commit_argv sy fs = with_credentials (repo2 sy) (commit_cmd ''Synced changes from repo1'' fs)"

definition c8_state :: sim where
  "c8_state = \<lparr>sim_files = [], sim_dirs = [''/src'', ''/dst''],
                sim_log = ''r1\<newline>D gone.txt'', sim_failing = []\<rparr>"

definition c8_end :: "sim world" where
  "c8_end = \<lparr>ost = c8_state,
              trace = [Spawn [''svn'', ''log'', ''-l'', ''100''] (Some ''/src'') [],
                       Exists ''/dst/gone.txt'']\<rparr>"

definition c8_unparsed :: sim where
  "c8_unparsed = \<lparr>sim_files = [], sim_dirs = [''/src'', ''/dst''],
                   sim_log = ''svn: warning: nothing to show'', sim_failing = []\<rparr>"

definition c7_state :: sim where
  "c7_state = \<lparr>sim_files = [(''/src/a.txt'', ''text of a'')], sim_dirs = [''/src'', ''/dst''],
                sim_log = ''r1\<newline>A a.txt'', sim_failing = [''commit'']\<rparr>"

definition c7_copied :: sim where
  "c7_copied = \<lparr>sim_files = [(''/dst/a.txt'', ''text of a''), (''/src/a.txt'', ''text of a'')],
                 sim_dirs = [''/src'', ''/dst''], sim_log = ''r1\<newline>A a.txt'',
                 sim_failing = [''commit'']\<rparr>"

definition c7_replayed :: "sim world" where
  "c7_replayed = \<lparr>ost = c7_copied,
       trace = [Spawn [''svn'', ''log'', ''-l'', ''100''] (Some ''/src'') [],
                Exists ''/dst'', Copy2 ''/src/a.txt'' ''/dst/a.txt'',
                Spawn [''svn'', ''add'', ''/dst/a.txt''] (Some ''/dst'') []]\<rparr>"






definition c5_log :: string where
  "c5_log = ''r10\<newline>A foo/bar.txt\<newline>r11\<newline>M foo/bar.txt\<newline>r12\<newline>D baz.txt''"

definition c5_state :: sim where
  "c5_state = \<lparr>sim_files = [(''/src/foo/bar.txt'', ''content at r11'')],
                sim_dirs = [''/src'', ''/src/foo'', ''/dst''],
                sim_log = c5_log, sim_failing = []\<rparr>"

definition c5_baz :: change where
  "c5_baz = \<lparr>revision = Some ''12'', action = ''D'', path = ''baz.txt''\<rparr>"

definition c5_bar :: change where
  "c5_bar = \<lparr>revision = Some ''11'', action = ''M'', path = ''foo/bar.txt''\<rparr>"

definition c5_end :: "sim world" where
  "c5_end = \<lparr>ost = \<lparr>sim_files = [(''/dst/foo/bar.txt'', ''content at r11''),
                                   (''/src/foo/bar.txt'', ''content at r11'')],
                      sim_dirs = [''/dst/foo'', ''/src'', ''/src/foo'', ''/dst''],
                      sim_log = c5_log, sim_failing = []\<rparr>,
              trace = [Spawn [''svn'', ''log'', ''-l'', ''100''] (Some ''/src'') [],
                       Exists ''/dst/foo'', Makedirs ''/dst/foo'' False,
                       Copy2 ''/src/foo/bar.txt'' ''/dst/foo/bar.txt'',
                       Spawn [''svn'', ''add'', ''/dst/foo/bar.txt''] (Some ''/dst'') [],
                       Exists ''/dst/foo'',
                       Copy2 ''/src/foo/bar.txt'' ''/dst/foo/bar.txt'',
                       Exists ''/dst/baz.txt'',
                       Spawn [''svn'', ''commit'', ''-m'', ''Synced changes from repo1'',
                              ''/dst/foo/bar.txt'', ''/dst/foo/bar.txt''] (Some ''/dst'') []]\<rparr>"

text \<open>
  What one change adds to \<open>files_to_commit\<close> when its replay does not raise: its
  target path for an add or a modify, and for a delete whose target path exists.
\<close>

definition contribution :: "'s os \<Rightarrow> repo_syncer \<Rightarrow> change \<Rightarrow> 's world \<Rightarrow> string list" where
  "contribution env sy ch w =
     (if action ch = ''A'' \<or> action ch = ''M''
         \<or> (action ch = ''D'' \<and> os_exists env (dst_path sy ch) (ost w))
      then [dst_path sy ch] else [])"











text \<open>
  An XML log with one entry whose path has a lower-case action; the revision stands
  inside the entry, where \<open>get_recent_commits\<close> looks for it.
\<close>

definition c10_xml :: string where
  "c10_xml = ''<logentry><rev revision='' @ [CHR 0x22] @ ''7'' @ [CHR 0x22]
     @ ''/><paths><path action='' @ [CHR 0x22] @ ''add'' @ [CHR 0x22]
     @ ''>/trunk/a.txt</path></paths></logentry>''"

definition c10_state :: sim where
  "c10_state = \<lparr>sim_files = [], sim_dirs = [''/dst''], sim_log = c10_xml, sim_failing = []\<rparr>"

text \<open>\<open>occurs pat s\<close>: the text \<open>pat\<close> stands somewhere in \<open>s\<close>.\<close>

definition occurs :: "string \<Rightarrow> string \<Rightarrow> bool" where
  "occurs pat s = (\<exists>u v. s = u @ pat @ v)"

text \<open>Commits none of which has a changed path.\<close>

definition no_paths :: "commit list \<Rightarrow> bool" where
  "no_paths cs = list_all (\<lambda>c. changed_paths c = []) cs"

section \<open>Credentials on the argument vector\<close>

lemma trace_run_command:
  "trace (snd (run_command env c command w))
     = trace w @ [Spawn (with_credentials c command) (Some (working_dir c)) []]"
  by (auto simp: run_command_def spawn_def split: prod.splits sum.splits)

lemma trace_run_bool:
  "trace (snd (run_bool env c command w))
     = trace w @ [Spawn (with_credentials c command) (Some (working_dir c)) []]"
  using trace_run_command [of env c command w]
  by (cases "run_command env c command w") (auto simp: run_bool_def split: sum.splits)

lemma trace_run_text:
  "trace (snd (run_text env c command w))
     = trace w @ [Spawn (with_credentials c command) (Some (working_dir c)) []]"
  using trace_run_command [of env c command w]
  by (cases "run_command env c command w") (auto simp: run_text_def split: sum.splits)

lemma with_credentials_both:
  "username c = Some u \<Longrightarrow> u \<noteq> [] \<Longrightarrow> password c = Some p \<Longrightarrow> p \<noteq> [] \<Longrightarrow>
   with_credentials c command = command @ [''--username'', u, ''--password'', p]"
  by (simp add: with_credentials_def truthy_def)

text \<open>
  C9. With a user name and a password configured (both non-empty), every verb of
  SVNClient spawns its child with the verb's own arguments and paths first and
  \<open>--username u --password p\<close> as the last four elements of the argument vector, in
  plain text; this holds for the read-only verbs (status, log, diff, info, list) as for
  the others.
\<close>

theorem C9_credentials_trail_every_verb:
  assumes "username c = Some u" and "u \<noteq> []" and "password c = Some p" and "p \<noteq> []"
  defines "creds \<equiv> [''--username'', u, ''--password'', p]"
  defines "wd \<equiv> Some (working_dir c)"
  shows "with_credentials c command = command @ creds
    \<and> trace (snd (run_command env c command w)) = trace w @ [Spawn (command @ creds) wd []]
    \<and> trace (snd (client_checkout env c url dest w))
         = trace w @ [Spawn (checkout_cmd url dest @ creds) wd []]
    \<and> trace (snd (client_update env c pth w)) = trace w @ [Spawn (update_cmd pth @ creds) wd []]
    \<and> trace (snd (client_commit env c m paths w))
         = trace w @ [Spawn (commit_cmd m paths @ creds) wd []]
    \<and> trace (snd (client_add env c paths w)) = trace w @ [Spawn (add_cmd paths @ creds) wd []]
    \<and> trace (snd (client_delete env c paths force w))
         = trace w @ [Spawn (delete_cmd paths force @ creds) wd []]
    \<and> trace (snd (client_status env c pth w)) = trace w @ [Spawn (status_cmd pth @ creds) wd []]
    \<and> trace (snd (client_log env c limit pth w))
         = trace w @ [Spawn (log_cmd limit pth @ creds) wd []]
    \<and> trace (snd (client_diff env c pth r w)) = trace w @ [Spawn (diff_cmd pth r @ creds) wd []]
    \<and> trace (snd (client_revert env c paths recursive w))
         = trace w @ [Spawn (revert_cmd paths recursive @ creds) wd []]
    \<and> trace (snd (client_cleanup env c w)) = trace w @ [Spawn (cleanup_cmd @ creds) wd []]
    \<and> trace (snd (client_info env c pth w)) = trace w @ [Spawn (info_cmd pth @ creds) wd []]
    \<and> trace (snd (client_list_files env c dest w))
         = trace w @ [Spawn (list_cmd dest @ creds) wd []]"
proof -
  have wc: "\<And>cmd. with_credentials c cmd = cmd @ creds"
    unfolding creds_def using assms(1-4) by (rule with_credentials_both)
  show ?thesis
    unfolding wd_def client_checkout_def client_update_def client_commit_def client_add_def
      client_delete_def client_status_def client_log_def client_diff_def client_revert_def
      client_cleanup_def client_info_def client_list_files_def
    by (simp only: trace_run_command trace_run_bool trace_run_text wc simp_thms)
qed

theorem C9_witness:
  "trace (snd (client_status sim_os
       \<lparr>working_dir = ''/wc'', username = Some ''bob'', password = Some ''secret''\<rparr>
       (Some ''src'') (start \<lparr>sim_files = [], sim_dirs = [], sim_log = [], sim_failing = []\<rparr>)))
   = [Spawn [''svn'', ''status'', ''src'', ''--username'', ''bob'', ''--password'', ''secret'']
        (Some ''/wc'') []]"
  using C9_credentials_trail_every_verb
    [of "\<lparr>working_dir = ''/wc'', username = Some ''bob'', password = Some ''secret''\<rparr>"
        "''bob''" "''secret''" "[]" sim_os
        "start \<lparr>sim_files = [], sim_dirs = [], sim_log = [], sim_failing = []\<rparr>"
        "[]" None "Some ''src''" "[]" "[]" False None None False]
  by (simp add: start_def status_cmd_def opt_arg_def truthy_def)

section \<open>The line parser\<close>












section \<open>Action tokens\<close>

lemma change_line_action:
  "is_change_line l \<Longrightarrow>
   take (Suc 0) l = ''A'' \<or> take (Suc 0) l = ''M'' \<or> take (Suc 0) l = ''D''"
  by (cases l) (auto simp: is_change_line_def startswith_def)

lemma parse_lines_actions:
  "list_all known_letter acc \<Longrightarrow> list_all known_letter (parse_lines ls cur acc)"
  by (induction ls arbitrary: cur acc)
     (auto simp: change_line_action known_letter_def split: option.splits)

lemma parse_log_entry_actions: "list_all known_letter (parse_log_entry out)"
  by (simp add: parse_log_entry_def parse_lines_actions)

lemma sync_change_unknown:
  "cp_action ch \<noteq> ''ADD'' \<Longrightarrow> cp_action ch \<noteq> ''MODIFY'' \<Longrightarrow> cp_action ch \<noteq> ''REPLACE'' \<Longrightarrow>
   cp_action ch \<noteq> ''DELETE'' \<Longrightarrow>
   sync_change env sy ch w = print (SkippingChange (cp_action ch) (cp_path ch)) w"
  by (simp add: sync_change_def Let_def)

lemma replay_change_unknown:
  "\<not> known_letter c \<Longrightarrow> replay_change env rs c fs w = (Inr fs, w)"
  by (simp add: replay_change_def known_letter_def)

lemma sync_change_written:
  assumes "cp_action rp = ''ADD'' \<or> cp_action rp = ''MODIFY'' \<or> cp_action rp = ''REPLACE''"
    and "os_makedirs env (dirname (target_of sy rp)) True (ost w) = (Inr (), s1)"
    and "os_spawn env [''svn'', ''cat'', source_of sy rp] (Some (repo1_url sy))
           (credential_env sy (Some (repo1_url sy))) s1 = (Inr (0, out, err), s2)"
    and "os_write env (target_of sy rp) out s2 = (Inr (), s3)"
  shows "sync_change env sy rp w
       = \<lparr>ost = s3, trace = trace w
            @ [Makedirs (dirname (target_of sy rp)) True,
               Spawn [''svn'', ''cat'', source_of sy rp] (Some (repo1_url sy))
                 (credential_env sy (Some (repo1_url sy))),
               WriteFile (target_of sy rp) out,
               Print (CopiedModified (cp_path rp))]\<rparr>"
  using assms
  by (auto simp add: sync_change_def write_body_def Let_def makedirs_step run_svn_command_step
        write_text_step print_eq)

text \<open>
  C3 (as amended). The line parser keeps only change lines whose action letter is A, M
  or D: a line with any other token (X, and R as well) is left out of the parsed
  sequence, so nothing of it is replayed; a change with another action handed to the
  replay of RepoSyncer does nothing. In SVNRepoSync, a change whose action is none of
  ADD, MODIFY, REPLACE, DELETE is skipped with a printed notice and no call to the file
  system or to svn, and a REPLACE change is replayed as a content write: the directory
  is made, the content is fetched with \<open>svn cat\<close> and, when that succeeds, written to
  the target path.
\<close>

theorem C3_unknown_skipped_replace_written:
  assumes "cp_action rp = ''REPLACE''"
    and "os_makedirs env (dirname (target_of sy rp)) True (ost w) = (Inr (), s1)"
    and "os_spawn env [''svn'', ''cat'', source_of sy rp] (Some (repo1_url sy))
           (credential_env sy (Some (repo1_url sy))) s1 = (Inr (0, out, err), s2)"
    and "os_write env (target_of sy rp) out s2 = (Inr (), s3)"
  shows "list_all known_letter (parse_log_entry log_output)
   \<and> (\<not> known_letter c \<longrightarrow> replay_change env rs c fs w = (Inr fs, w))
   \<and> (cp_action ch \<noteq> ''ADD'' \<and> cp_action ch \<noteq> ''MODIFY'' \<and> cp_action ch \<noteq> ''REPLACE''
        \<and> cp_action ch \<noteq> ''DELETE''
        \<longrightarrow> sync_change env sy ch w = print (SkippingChange (cp_action ch) (cp_path ch)) w)
   \<and> sync_change env sy rp w
       = \<lparr>ost = s3, trace = trace w
            @ [Makedirs (dirname (target_of sy rp)) True,
               Spawn [''svn'', ''cat'', source_of sy rp] (Some (repo1_url sy))
                 (credential_env sy (Some (repo1_url sy))),
               WriteFile (target_of sy rp) out,
               Print (CopiedModified (cp_path rp))]\<rparr>"
  using parse_log_entry_actions replay_change_unknown sync_change_unknown
    sync_change_written [of rp env sy w s1 out err s2 s3] assms
  by (intro conjI impI) auto

text \<open>The run on the reference environment.\<close>

lemma C3_h1: "cp_action demo_replace = ''REPLACE''" by code_simp
lemma C3_h2: "os_makedirs sim_os (dirname (target_of demo_sync demo_replace)) True
     (ost (start demo_state)) = (Inr (), demo_state\<lparr>sim_dirs := [''/dst/trunk'', ''/dst'']\<rparr>)"
  by code_simp
lemma C3_h3: "os_spawn sim_os [''svn'', ''cat'', source_of demo_sync demo_replace]
     (Some (repo1_url demo_sync)) (credential_env demo_sync (Some (repo1_url demo_sync)))
     (demo_state\<lparr>sim_dirs := [''/dst/trunk'', ''/dst'']\<rparr>)
   = (Inr (0, ''new text'', []), demo_state\<lparr>sim_dirs := [''/dst/trunk'', ''/dst'']\<rparr>)"
  by code_simp
lemma C3_h4: "os_write sim_os (target_of demo_sync demo_replace) ''new text''
     (demo_state\<lparr>sim_dirs := [''/dst/trunk'', ''/dst'']\<rparr>)
   = (Inr (), sim_put ''/dst/trunk/a.txt'' ''new text''
        (demo_state\<lparr>sim_dirs := [''/dst/trunk'', ''/dst'']\<rparr>))"
  by code_simp
lemma C3_h5: "\<not> known_letter demo_x_change" by code_simp
lemma C3_h6: "cp_action demo_unknown \<noteq> ''ADD'' \<and> cp_action demo_unknown \<noteq> ''MODIFY''
   \<and> cp_action demo_unknown \<noteq> ''REPLACE'' \<and> cp_action demo_unknown \<noteq> ''DELETE''"
  by code_simp

theorem C3_witness:
  "list_all known_letter (parse_log_entry ''r1\<newline>X foo\<newline>A bar'')
   \<and> replay_change sim_os demo_syncer demo_x_change [] (start demo_state)
       = (Inr [], start demo_state)
   \<and> sync_change sim_os demo_sync demo_unknown (start demo_state)
       = print (SkippingChange (cp_action demo_unknown) (cp_path demo_unknown)) (start demo_state)
   \<and> sync_change sim_os demo_sync demo_replace (start demo_state)
       = \<lparr>ost = sim_put ''/dst/trunk/a.txt'' ''new text''
                 (demo_state\<lparr>sim_dirs := [''/dst/trunk'', ''/dst'']\<rparr>),
          trace = trace (start demo_state)
            @ [Makedirs (dirname (target_of demo_sync demo_replace)) True,
               Spawn [''svn'', ''cat'', source_of demo_sync demo_replace]
                 (Some (repo1_url demo_sync))
                 (credential_env demo_sync (Some (repo1_url demo_sync))),
               WriteFile (target_of demo_sync demo_replace) ''new text'',
               Print (CopiedModified (cp_path demo_replace))]\<rparr>"
  using C3_unknown_skipped_replace_written [OF C3_h1 C3_h2 C3_h3 C3_h4,
      where log_output = "''r1\<newline>X foo\<newline>A bar''" and c = demo_x_change
        and rs = demo_syncer and fs = "[]" and ch = demo_unknown]
    C3_h5 C3_h6
  by blast

text \<open>
  The claim as written fails: a line with the token X is not retained in the parsed
  sequence.
\<close>

theorem C3_counterexample: "parse_log_entry ''r1\<newline>X foo'' = []"
  by (simp add: parse_log_entry_def rev_match_def is_digit_def is_change_line_def
        startswith_def)

section \<open>How the trace grows\<close>

lemma grows_refl: "grows P w w"
  by (simp add: grows_def)

lemma grows_trans: "grows P w w1 \<Longrightarrow> grows P w1 w2 \<Longrightarrow> grows P w w2"
  by (auto simp: grows_def)



lemma run_bool_step:
  "os_spawn env (with_credentials c command) (Some (working_dir c)) [] (ost w)
     = (Inr (code, out, err), s') \<Longrightarrow>
   run_bool env c command w
     = (Inr (code = 0),
        \<lparr>ost = s', trace = trace w
          @ [Spawn (with_credentials c command) (Some (working_dir c)) []]\<rparr>)"
  by (simp add: run_bool_def run_command_step)

lemma run_text_step:
  "os_spawn env (with_credentials c command) (Some (working_dir c)) [] (ost w)
     = (Inr (code, out, err), s') \<Longrightarrow>
   run_text env c command w
     = (Inr (strip out),
        \<lparr>ost = s', trace = trace w
          @ [Spawn (with_credentials c command) (Some (working_dir c)) []]\<rparr>)"
  by (simp add: run_text_def run_command_step)


lemma grows_run_bool:
  assumes "P (Spawn (with_credentials c command) (Some (working_dir c)) [])"
  shows "grows P w (snd (run_bool env c command w))"
  using assms trace_run_bool [of env c command w] by (simp add: grows_def)

lemma grows_path_exists: "P (Exists p) \<Longrightarrow> grows P w (snd (path_exists env p w))"
  by (simp add: path_exists_eq grows_def)

lemma grows_makedirs: "P (Makedirs p ok) \<Longrightarrow> grows P w (snd (makedirs env p ok w))"
  by (auto simp: makedirs_def grows_def split: prod.splits)

lemma grows_copy2: "P (Copy2 a b) \<Longrightarrow> grows P w (snd (copy2 env a b w))"
  by (auto simp: copy2_def grows_def split: prod.splits)

lemma grows_ensure_dir:
  "P (Exists p) \<Longrightarrow> P (Makedirs p False) \<Longrightarrow> grows P w (snd (ensure_dir env p w))"
  unfolding ensure_dir_def path_exists_eq
  by (auto simp: makedirs_def grows_def split: prod.splits bool.splits)

lemma grows_replay_change:
  "grows replay_event w (snd (replay_change env sy ch fs w))"
proof -
  have add: "replay_event (Spawn (with_credentials c (add_cmd ps)) wd [])" for c ps wd
    by (simp add: replay_event_def add_cmd_def with_credentials_def)
  have del: "replay_event (Spawn (with_credentials c (delete_cmd ps False)) wd [])" for c ps wd
    by (simp add: replay_event_def delete_cmd_def with_credentials_def)
  have ens: "grows replay_event w (snd (ensure_dir env p w))" for p and w :: "'a world"
    by (rule grows_ensure_dir) (simp_all add: replay_event_def)
  have cp: "grows replay_event w (snd (copy2 env a b w))" for a b and w :: "'a world"
    by (rule grows_copy2) (simp add: replay_event_def)
  have ex: "grows replay_event w (snd (path_exists env p w))" for p and w :: "'a world"
    by (rule grows_path_exists) (simp add: replay_event_def)
  have ad: "grows replay_event w (snd (client_add env c ps w))" for c ps and w :: "'a world"
    unfolding client_add_def by (rule grows_run_bool) (rule add)
  have de: "grows replay_event w (snd (client_delete env c ps False w))"
    for c ps and w :: "'a world"
    unfolding client_delete_def by (rule grows_run_bool) (rule del)
  show ?thesis
  proof (cases "action ch = ''A'' \<or> action ch = ''M''")
    case True
    obtain r1 w1 where e: "ensure_dir env (dirname (dst_path sy ch)) w = (r1, w1)"
      by (cases "ensure_dir env (dirname (dst_path sy ch)) w")
    obtain r2 w2 where c: "copy_file env (src_path sy ch) (dst_path sy ch) w1 = (r2, w2)"
      by (cases "copy_file env (src_path sy ch) (dst_path sy ch) w1")
    obtain r3 w3 where a: "client_add env (repo2 sy) [dst_path sy ch] w2 = (r3, w3)"
      by (cases "client_add env (repo2 sy) [dst_path sy ch] w2")
    have g1: "grows replay_event w w1" using ens [where p = "dirname (dst_path sy ch)" and w = w] e by simp
    have g2: "grows replay_event w1 w2"
      using cp [where a = "src_path sy ch" and b = "dst_path sy ch" and w = w1] c by (simp add: copy_file_def)
    have g3: "grows replay_event w2 w3" using ad [where c = "repo2 sy" and ps = "[dst_path sy ch]" and w = w2] a by simp
    show ?thesis
      using True e c a g1 grows_trans [OF g1 g2] grows_trans [OF grows_trans [OF g1 g2] g3]
      by (auto simp: replay_change_def split: sum.splits)
  next
    case False
    obtain b w1 where e: "path_exists env (dst_path sy ch) w = (b, w1)"
      by (cases "path_exists env (dst_path sy ch) w")
    obtain r2 w2 where d: "client_delete env (repo2 sy) [dst_path sy ch] False w1 = (r2, w2)"
      by (cases "client_delete env (repo2 sy) [dst_path sy ch] False w1")
    have g1: "grows replay_event w w1"
      using ex [where p = "dst_path sy ch" and w = w] e by simp
    have g2: "grows replay_event w1 w2"
      using de [where c = "repo2 sy" and ps = "[dst_path sy ch]" and w = w1] d by simp
    show ?thesis
      using False e d g1 grows_trans [OF g1 g2] grows_refl [of replay_event w]
      by (auto simp: replay_change_def split: sum.splits bool.splits)
  qed
qed

lemma grows_replay_changes:
  "grows replay_event w (snd (replay_changes env sy chs fs w))"
proof (induction chs arbitrary: fs w)
  case Nil
  show ?case by (simp add: grows_refl)
next
  case (Cons ch chs)
  obtain r1 w1 where s: "replay_change env sy ch fs w = (r1, w1)"
    by (cases "replay_change env sy ch fs w")
  have g1: "grows replay_event w w1" using grows_replay_change [where w = w and env = env and sy = sy and ch = ch and fs = fs] s
    by simp
  show ?case
  proof (cases r1)
    case (Inl e)
    then show ?thesis using s g1 by simp
  next
    case (Inr fs1)
    then show ?thesis using s grows_trans [OF g1 Cons.IH [where w = w1 and fs = fs1]] by simp
  qed
qed

section \<open>Nothing to commit\<close>

lemma client_log_step:
  "os_spawn env (log_argv sy) (Some (working_dir (repo1 sy))) [] (ost w)
     = (Inr (code, out, err), s1) \<Longrightarrow>
   client_log env (repo1 sy) (Some 100) None w
     = (Inr (strip out),
        \<lparr>ost = s1, trace = trace w @ [Spawn (log_argv sy) (Some (working_dir (repo1 sy))) []]\<rparr>)"
  unfolding client_log_def log_argv_def by (rule run_text_step)

lemma client_commit_step:
  "os_spawn env (commit_argv sy fs) (Some (working_dir (repo2 sy))) [] (ost w)
     = (Inr (code, out, err), s') \<Longrightarrow>
   client_commit env (repo2 sy) ''Synced changes from repo1'' fs w
     = (Inr (code = 0),
        \<lparr>ost = s', trace = trace w
           @ [Spawn (commit_argv sy fs) (Some (working_dir (repo2 sy))) []]\<rparr>)"
  unfolding client_commit_def commit_argv_def by (rule run_bool_step)

lemma replay_event_not_commit: "replay_event e \<Longrightarrow> \<not> spawns_verb ''commit'' e"
  by (cases e) (auto simp: replay_event_def spawns_verb_def)

lemma log_argv_not_commit:
  "\<not> spawns_verb ''commit'' (Spawn (log_argv sy) wd vars)"
  by (simp add: spawns_verb_def log_argv_def log_cmd_def with_credentials_def)

lemma sync_changes_nothing_to_commit:
  assumes "os_spawn env (log_argv sy) (Some (working_dir (repo1 sy))) [] (ost w)
             = (Inr (code, out, err), s1)"
    and "replay_changes env sy (parse_log_entry (strip out)) []
           \<lparr>ost = s1, trace = trace w @ [Spawn (log_argv sy) (Some (working_dir (repo1 sy))) []]\<rparr>
         = (Inr [], w2)"
  shows "sync_changes env sy w = (True, w2)"
    and "list_all (\<lambda>e. \<not> spawns_verb ''commit'' e) (new_events w w2)"
proof -
  let ?w1 = "\<lparr>ost = s1, trace = trace w @ [Spawn (log_argv sy) (Some (working_dir (repo1 sy))) []]\<rparr>"
  show "sync_changes env sy w = (True, w2)"
    using assms by (simp add: sync_changes_def sync_body_def client_log_step)
  have "grows replay_event ?w1 w2"
    using grows_replay_changes [where w = ?w1 and env = env and sy = sy
        and chs = "parse_log_entry (strip out)" and fs = "[]"] assms(2) by simp
  then obtain evs where evs: "trace w2 = trace ?w1 @ evs" "list_all replay_event evs"
    by (auto simp: grows_def)
  have "new_events w w2 = Spawn (log_argv sy) (Some (working_dir (repo1 sy))) [] # evs"
    using evs(1) by (simp add: new_events_def)
  then show "list_all (\<lambda>e. \<not> spawns_verb ''commit'' e) (new_events w w2)"
    using evs(2) replay_event_not_commit log_argv_not_commit
    by (auto simp: list_all_iff)
qed

text \<open>
  C8. When the log fetch of \<open>RepoSyncer.sync_changes\<close> returns and the replay of the
  parsed changes ends with an empty \<open>files_to_commit\<close>, \<open>sync_changes\<close> returns
  \<open>True\<close> in the world the replay left: no event after the replay, and no
  \<open>svn commit\<close> among the events of the whole call. In particular, when the log
  output parses to no change at all (empty or unparseable output), the log fetch is the
  only event and the result is \<open>True\<close>.
\<close>

theorem C8_no_files_no_commit_returns_True:
  assumes "os_spawn env (log_argv sy) (Some (working_dir (repo1 sy))) [] (ost w)
             = (Inr (code, out, err), s1)"
  shows "(replay_changes env sy (parse_log_entry (strip out)) []
            \<lparr>ost = s1, trace = trace w @ [Spawn (log_argv sy) (Some (working_dir (repo1 sy))) []]\<rparr>
          = (Inr [], w2)
          \<longrightarrow> sync_changes env sy w = (True, w2)
              \<and> list_all (\<lambda>e. \<not> spawns_verb ''commit'' e) (new_events w w2))
    \<and> (parse_log_entry (strip out) = []
          \<longrightarrow> sync_changes env sy w
              = (True, \<lparr>ost = s1, trace = trace w
                   @ [Spawn (log_argv sy) (Some (working_dir (repo1 sy))) []]\<rparr>))"
proof (intro conjI impI)
  assume r: "replay_changes env sy (parse_log_entry (strip out)) []
            \<lparr>ost = s1, trace = trace w @ [Spawn (log_argv sy) (Some (working_dir (repo1 sy))) []]\<rparr>
          = (Inr [], w2)"
  show "sync_changes env sy w = (True, w2)"
    using assms r by (rule sync_changes_nothing_to_commit(1))
  show "list_all (\<lambda>e. \<not> spawns_verb ''commit'' e) (new_events w w2)"
    using assms r by (rule sync_changes_nothing_to_commit(2))
next
  assume "parse_log_entry (strip out) = []"
  then show "sync_changes env sy w
              = (True, \<lparr>ost = s1, trace = trace w
                   @ [Spawn (log_argv sy) (Some (working_dir (repo1 sy))) []]\<rparr>)"
    using assms by (simp add: sync_changes_def sync_body_def client_log_step)
qed

text \<open>
  Two runs on the reference environment: a log whose only change deletes a path that
  the target does not have, and a log without any change line.
\<close>

lemma C8_h1: "os_spawn sim_os (log_argv demo_syncer) (Some (working_dir (repo1 demo_syncer))) []
    (ost (start c8_state)) = (Inr (0, sim_log c8_state, []), c8_state)"
  by code_simp

lemma C8_h2: "replay_changes sim_os demo_syncer (parse_log_entry (strip (sim_log c8_state))) []
    \<lparr>ost = c8_state, trace = trace (start c8_state)
       @ [Spawn (log_argv demo_syncer) (Some (working_dir (repo1 demo_syncer))) []]\<rparr>
    = (Inr [], c8_end)"
  by code_simp

lemma C8_h3: "os_spawn sim_os (log_argv demo_syncer) (Some (working_dir (repo1 demo_syncer))) []
    (ost (start c8_unparsed)) = (Inr (0, sim_log c8_unparsed, []), c8_unparsed)"
  by code_simp

lemma C8_h4: "parse_log_entry (strip (sim_log c8_unparsed)) = []"
  by code_simp

theorem C8_witness:
  "(sync_changes sim_os demo_syncer (start c8_state) = (True, c8_end)
      \<and> list_all (\<lambda>e. \<not> spawns_verb ''commit'' e) (new_events (start c8_state) c8_end))
   \<and> sync_changes sim_os demo_syncer (start c8_unparsed)
       = (True, \<lparr>ost = c8_unparsed, trace = trace (start c8_unparsed)
            @ [Spawn (log_argv demo_syncer) (Some (working_dir (repo1 demo_syncer))) []]\<rparr>)"
  using C8_no_files_no_commit_returns_True [OF C8_h1, where ?w2.0 = c8_end] C8_h2
    C8_no_files_no_commit_returns_True [OF C8_h3, where ?w2.0 = c8_end] C8_h4
  by blast

section \<open>A failed commit\<close>

lemma sync_changes_commit_failed:
  assumes "os_spawn env (log_argv sy) (Some (working_dir (repo1 sy))) [] (ost w)
             = (Inr (code, out, err), s1)"
    and "replay_changes env sy (parse_log_entry (strip out)) []
           \<lparr>ost = s1, trace = trace w @ [Spawn (log_argv sy) (Some (working_dir (repo1 sy))) []]\<rparr>
         = (Inr fs, w2)"
    and "fs \<noteq> []"
    and "os_spawn env (commit_argv sy fs) (Some (working_dir (repo2 sy))) [] (ost w2)
           = (Inr (ccode, cout, cerr), s3)"
  shows "sync_changes env sy w
       = (ccode = 0, \<lparr>ost = s3, trace = trace w2
            @ [Spawn (commit_argv sy fs) (Some (working_dir (repo2 sy))) []]\<rparr>)"
  using assms by (simp add: sync_changes_def sync_body_def client_log_step client_commit_step)


lemma replay_event_not_revert: "replay_event e \<Longrightarrow> \<not> spawns_verb ''revert'' e"
  by (cases e) (auto simp: replay_event_def spawns_verb_def)

lemma commit_changes_failed:
  assumes "os_spawn env [''svn'', ''add'', ''--force'', ''.''] (Some (sync_repo2_path sy))
             (credential_env sy (Some (sync_repo2_path sy))) (ost w)
           = (Inr (acode, aout, aerr), s1)"
    and "os_spawn env [''svn'', ''commit'', ''-m'', message] (Some (sync_repo2_path sy))
             (credential_env sy (Some (sync_repo2_path sy))) s1
           = (Inr (code, out, err), s2)"
    and "code \<noteq> 0"
  shows "commit_changes env sy message w
       = (Inl (PyException (''SVN commit failed: '' @ err)),
          \<lparr>ost = s2, trace = trace w
             @ [Print (CommittingTo (sync_repo2_path sy)),
                Spawn [''svn'', ''add'', ''--force'', ''.''] (Some (sync_repo2_path sy))
                  (credential_env sy (Some (sync_repo2_path sy)))]
             @ (if acode \<noteq> 0 then [Print (ErrorAdding aerr)] else [])
             @ [Spawn [''svn'', ''commit'', ''-m'', message] (Some (sync_repo2_path sy))
                  (credential_env sy (Some (sync_repo2_path sy))),
                Print (ErrorCommittingStderr err),
                Print (ErrorCommitting (PyException (''SVN commit failed: '' @ err)))]\<rparr>)"
  using assms
  by (simp add: commit_changes_def commit_body_def run_svn_command_step print_eq)

text \<open>
  C7. When the commit command exits with a non-zero status, the run ends failed and
  nothing is rolled back. In RepoSyncer, \<open>sync_changes\<close> returns \<open>False\<close>; the
  outside state is the one the commit command left, the commit is the last event, and
  no event of the call is an \<open>svn revert\<close>; \<open>main\<close> then prints the failure. In
  SVNRepoSync, \<open>commit_changes\<close> raises; after the commit command only the two error
  lines are printed and the outside state is the one the commit command left; the
  exception leaves the script, which ends there.
\<close>

theorem C7_commit_failure_no_rollback:
  "(os_spawn env (log_argv sy) (Some (working_dir (repo1 sy))) [] (ost w)
        = (Inr (lcode, lout, lerr), s1)
      \<and> replay_changes env sy (parse_log_entry (strip lout)) []
           \<lparr>ost = s1, trace = trace w @ [Spawn (log_argv sy) (Some (working_dir (repo1 sy))) []]\<rparr>
         = (Inr fs, w2)
      \<and> fs \<noteq> []
      \<and> os_spawn env (commit_argv sy fs) (Some (working_dir (repo2 sy))) [] (ost w2)
           = (Inr (code, out, err), s3)
      \<and> code \<noteq> 0
    \<longrightarrow> sync_changes env sy w
          = (False, \<lparr>ost = s3, trace = trace w2
               @ [Spawn (commit_argv sy fs) (Some (working_dir (repo2 sy))) []]\<rparr>)
        \<and> list_all (\<lambda>e. \<not> spawns_verb ''revert'' e) (new_events w w2))
   \<and> (os_spawn env' [''svn'', ''add'', ''--force'', ''.''] (Some (sync_repo2_path sy'))
             (credential_env sy' (Some (sync_repo2_path sy'))) (ost w')
           = (Inr (acode, aout, aerr), t1)
      \<and> os_spawn env' [''svn'', ''commit'', ''-m'', message] (Some (sync_repo2_path sy'))
             (credential_env sy' (Some (sync_repo2_path sy'))) t1
           = (Inr (code', out', err'), t2)
      \<and> code' \<noteq> 0
    \<longrightarrow> commit_changes env' sy' message w'
       = (Inl (PyException (''SVN commit failed: '' @ err')),
          \<lparr>ost = t2, trace = trace w'
             @ [Print (CommittingTo (sync_repo2_path sy')),
                Spawn [''svn'', ''add'', ''--force'', ''.''] (Some (sync_repo2_path sy'))
                  (credential_env sy' (Some (sync_repo2_path sy')))]
             @ (if acode \<noteq> 0 then [Print (ErrorAdding aerr)] else [])
             @ [Spawn [''svn'', ''commit'', ''-m'', message] (Some (sync_repo2_path sy'))
                  (credential_env sy' (Some (sync_repo2_path sy'))),
                Print (ErrorCommittingStderr err'),
                Print (ErrorCommitting (PyException (''SVN commit failed: '' @ err')))]\<rparr>))
   \<and> (update_repos env sy (print UpdatingRepositories v) = (Inr True, vu)
      \<and> sync_changes env sy (print SyncingChanges vu) = (False, vf)
    \<longrightarrow> main env sy v = (Inr (), print FailedToSync vf))
   \<and> (update_repo env' sy' (sync_repo2_path sy') v' = (Inr (), va)
      \<and> get_recent_commits env' sy' (repo1_url sy') 100 va = (Inr commits, vb)
      \<and> commit_changes env' sy' ''Sync changes from repo1''
            (SVNRepoSync_sync_changes env' sy' commits vb) = (Inl e, vf')
    \<longrightarrow> SVNRepoSync_main env' sy' v' = (Inl e, vf'))"
proof (intro conjI impI; (elim conjE)?)
  assume a: "os_spawn env (log_argv sy) (Some (working_dir (repo1 sy))) [] (ost w)
        = (Inr (lcode, lout, lerr), s1)"
    "replay_changes env sy (parse_log_entry (strip lout)) []
           \<lparr>ost = s1, trace = trace w @ [Spawn (log_argv sy) (Some (working_dir (repo1 sy))) []]\<rparr>
         = (Inr fs, w2)"
    "fs \<noteq> []"
    "os_spawn env (commit_argv sy fs) (Some (working_dir (repo2 sy))) [] (ost w2)
           = (Inr (code, out, err), s3)"
    "code \<noteq> 0"
  let ?w1 = "\<lparr>ost = s1, trace = trace w @ [Spawn (log_argv sy) (Some (working_dir (repo1 sy))) []]\<rparr>"
  show "sync_changes env sy w
          = (False, \<lparr>ost = s3, trace = trace w2
               @ [Spawn (commit_argv sy fs) (Some (working_dir (repo2 sy))) []]\<rparr>)"
    using sync_changes_commit_failed [OF a(1-4)] a(5) by simp
  have "grows replay_event ?w1 w2"
    using grows_replay_changes [where w = ?w1 and env = env and sy = sy
        and chs = "parse_log_entry (strip lout)" and fs = "[]"] a(2) by simp
  then obtain evs where evs: "trace w2 = trace ?w1 @ evs" "list_all replay_event evs"
    by (auto simp: grows_def)
  have "new_events w w2 = Spawn (log_argv sy) (Some (working_dir (repo1 sy))) [] # evs"
    using evs(1) by (simp add: new_events_def)
  moreover have "\<not> spawns_verb ''revert'' (Spawn (log_argv sy) (Some (working_dir (repo1 sy))) [])"
    by (simp add: spawns_verb_def log_argv_def log_cmd_def with_credentials_def)
  ultimately show "list_all (\<lambda>e. \<not> spawns_verb ''revert'' e) (new_events w w2)"
    using evs(2) replay_event_not_revert by (auto simp: list_all_iff)
next
  assume "os_spawn env' [''svn'', ''add'', ''--force'', ''.''] (Some (sync_repo2_path sy'))
             (credential_env sy' (Some (sync_repo2_path sy'))) (ost w')
           = (Inr (acode, aout, aerr), t1)"
    "os_spawn env' [''svn'', ''commit'', ''-m'', message] (Some (sync_repo2_path sy'))
             (credential_env sy' (Some (sync_repo2_path sy'))) t1
           = (Inr (code', out', err'), t2)"
    "code' \<noteq> 0"
  then show "commit_changes env' sy' message w'
       = (Inl (PyException (''SVN commit failed: '' @ err')),
          \<lparr>ost = t2, trace = trace w'
             @ [Print (CommittingTo (sync_repo2_path sy')),
                Spawn [''svn'', ''add'', ''--force'', ''.''] (Some (sync_repo2_path sy'))
                  (credential_env sy' (Some (sync_repo2_path sy')))]
             @ (if acode \<noteq> 0 then [Print (ErrorAdding aerr)] else [])
             @ [Spawn [''svn'', ''commit'', ''-m'', message] (Some (sync_repo2_path sy'))
                  (credential_env sy' (Some (sync_repo2_path sy'))),
                Print (ErrorCommittingStderr err'),
                Print (ErrorCommitting (PyException (''SVN commit failed: '' @ err')))]\<rparr>)"
    by (rule commit_changes_failed)
next
  assume "update_repos env sy (print UpdatingRepositories v) = (Inr True, vu)"
    "sync_changes env sy (print SyncingChanges vu) = (False, vf)"
  then show "main env sy v = (Inr (), print FailedToSync vf)"
    by (simp add: main_def)
next
  assume "update_repo env' sy' (sync_repo2_path sy') v' = (Inr (), va)"
    "get_recent_commits env' sy' (repo1_url sy') 100 va = (Inr commits, vb)"
    "commit_changes env' sy' ''Sync changes from repo1''
            (SVNRepoSync_sync_changes env' sy' commits vb) = (Inl e, vf')"
  then show "SVNRepoSync_main env' sy' v' = (Inl e, vf')"
    by (simp add: SVNRepoSync_main_def)
qed

text \<open>
  The run on the reference environment: one added file is copied and staged, then the
  commit exits with status 1; the copied file is still there.
\<close>

lemma C7_h1: "os_spawn sim_os (log_argv demo_syncer) (Some (working_dir (repo1 demo_syncer))) []
    (ost (start c7_state)) = (Inr (0, sim_log c7_state, []), c7_state)"
  by code_simp

lemma C7_h2: "replay_changes sim_os demo_syncer (parse_log_entry (strip (sim_log c7_state))) []
    \<lparr>ost = c7_state, trace = trace (start c7_state)
       @ [Spawn (log_argv demo_syncer) (Some (working_dir (repo1 demo_syncer))) []]\<rparr>
    = (Inr [''/dst/a.txt''], c7_replayed)"
  by code_simp

lemma C7_h3: "os_spawn sim_os (commit_argv demo_syncer [''/dst/a.txt''])
    (Some (working_dir (repo2 demo_syncer))) [] (ost c7_replayed)
    = (Inr (1, [], ''svn: E000000: commit''), c7_copied)"
  by code_simp

lemma C7_h4: "os_spawn sim_os [''svn'', ''add'', ''--force'', ''.'']
    (Some (sync_repo2_path demo_sync)) (credential_env demo_sync (Some (sync_repo2_path demo_sync)))
    (ost (start c7_state)) = (Inr (0, [], []), c7_state)"
  by code_simp

lemma C7_h5: "os_spawn sim_os [''svn'', ''commit'', ''-m'', ''Sync changes from repo1'']
    (Some (sync_repo2_path demo_sync)) (credential_env demo_sync (Some (sync_repo2_path demo_sync)))
    c7_state = (Inr (1, [], ''svn: E000000: commit''), c7_state)"
  by code_simp

lemma C7_h6: "update_repos sim_os demo_syncer (print UpdatingRepositories (start c7_state))
    = (Inr True, snd (update_repos sim_os demo_syncer (print UpdatingRepositories (start c7_state))))"
  by code_simp

lemma C7_h7: "sync_changes sim_os demo_syncer (print SyncingChanges
      (snd (update_repos sim_os demo_syncer (print UpdatingRepositories (start c7_state)))))
    = (False, snd (sync_changes sim_os demo_syncer (print SyncingChanges
      (snd (update_repos sim_os demo_syncer (print UpdatingRepositories (start c7_state)))))))"
  by code_simp

lemma C7_h8: "update_repo sim_os demo_sync (sync_repo2_path demo_sync) (start c7_state)
    = (Inr (), snd (update_repo sim_os demo_sync (sync_repo2_path demo_sync) (start c7_state)))"
  by code_simp

lemma C7_h9: "get_recent_commits sim_os demo_sync (repo1_url demo_sync) 100
      (snd (update_repo sim_os demo_sync (sync_repo2_path demo_sync) (start c7_state)))
    = (Inr [], snd (get_recent_commits sim_os demo_sync (repo1_url demo_sync) 100
      (snd (update_repo sim_os demo_sync (sync_repo2_path demo_sync) (start c7_state)))))"
  by code_simp

lemma C7_h10: "commit_changes sim_os demo_sync ''Sync changes from repo1''
      (SVNRepoSync_sync_changes sim_os demo_sync []
        (snd (get_recent_commits sim_os demo_sync (repo1_url demo_sync) 100
          (snd (update_repo sim_os demo_sync (sync_repo2_path demo_sync) (start c7_state))))))
    = (Inl (PyException ''SVN commit failed: svn: E000000: commit''),
       snd (SVNRepoSync_main sim_os demo_sync (start c7_state)))"
  by code_simp

theorem C7_witness:
  "(sync_changes sim_os demo_syncer (start c7_state)
      = (False, \<lparr>ost = c7_copied, trace = trace c7_replayed
           @ [Spawn (commit_argv demo_syncer [''/dst/a.txt''])
                (Some (working_dir (repo2 demo_syncer))) []]\<rparr>)
    \<and> list_all (\<lambda>e. \<not> spawns_verb ''revert'' e) (new_events (start c7_state) c7_replayed))
   \<and> commit_changes sim_os demo_sync ''Sync changes from repo1'' (start c7_state)
       = (Inl (PyException (''SVN commit failed: '' @ ''svn: E000000: commit'')),
          \<lparr>ost = c7_state, trace = trace (start c7_state)
             @ [Print (CommittingTo (sync_repo2_path demo_sync)),
                Spawn [''svn'', ''add'', ''--force'', ''.''] (Some (sync_repo2_path demo_sync))
                  (credential_env demo_sync (Some (sync_repo2_path demo_sync)))]
             @ (if (0::int) \<noteq> 0 then [Print (ErrorAdding [])] else [])
             @ [Spawn [''svn'', ''commit'', ''-m'', ''Sync changes from repo1'']
                  (Some (sync_repo2_path demo_sync))
                  (credential_env demo_sync (Some (sync_repo2_path demo_sync))),
                Print (ErrorCommittingStderr ''svn: E000000: commit''),
                Print (ErrorCommitting
                  (PyException (''SVN commit failed: '' @ ''svn: E000000: commit'')))]\<rparr>)
   \<and> main sim_os demo_syncer (start c7_state)
       = (Inr (), print FailedToSync (snd (sync_changes sim_os demo_syncer (print SyncingChanges
           (snd (update_repos sim_os demo_syncer
              (print UpdatingRepositories (start c7_state))))))))
   \<and> SVNRepoSync_main sim_os demo_sync (start c7_state)
       = (Inl (PyException ''SVN commit failed: svn: E000000: commit''),
          snd (SVNRepoSync_main sim_os demo_sync (start c7_state)))"
proof -
  have ne: "[''/dst/a.txt''] \<noteq> []" "(1::int) \<noteq> 0" by simp_all
  note T = C7_commit_failure_no_rollback
    [where env = sim_os and sy = demo_syncer and w = "start c7_state" and lcode = 0
       and lout = "sim_log c7_state" and lerr = "[]" and ?s1.0 = c7_state
       and fs = "[''/dst/a.txt'']" and ?w2.0 = c7_replayed and code = 1 and out = "[]"
       and err = "''svn: E000000: commit''" and ?s3.0 = c7_copied
       and env' = sim_os and sy' = demo_sync and w' = "start c7_state" and acode = 0
       and aout = "[]" and aerr = "[]" and ?t1.0 = c7_state
       and message = "''Sync changes from repo1''" and code' = 1 and out' = "[]"
       and err' = "''svn: E000000: commit''" and ?t2.0 = c7_state
       and v = "start c7_state"
       and vu = "snd (update_repos sim_os demo_syncer (print UpdatingRepositories (start c7_state)))"
       and vf = "snd (sync_changes sim_os demo_syncer (print SyncingChanges
           (snd (update_repos sim_os demo_syncer (print UpdatingRepositories (start c7_state))))))"
       and v' = "start c7_state"
       and va = "snd (update_repo sim_os demo_sync (sync_repo2_path demo_sync) (start c7_state))"
       and commits = "[]"
       and vb = "snd (get_recent_commits sim_os demo_sync (repo1_url demo_sync) 100
          (snd (update_repo sim_os demo_sync (sync_repo2_path demo_sync) (start c7_state))))"
       and e = "PyException ''SVN commit failed: svn: E000000: commit''"
       and vf' = "snd (SVNRepoSync_main sim_os demo_sync (start c7_state))"]
  show ?thesis
    using T ne C7_h1 C7_h2 C7_h3 C7_h4 C7_h5 C7_h6 C7_h7 C7_h8 C7_h9 C7_h10
    by blast
qed

section \<open>Deleting a path that is not there\<close>


















section \<open>The paths collected for the commit\<close>

lemma replay_change_files:
  "replay_change env sy ch fs w = (Inr fs', w') \<Longrightarrow> fs' = fs @ contribution env sy ch w"
  by (auto simp: replay_change_def contribution_def path_exists_eq
           split: if_splits prod.splits sum.splits bool.splits)

lemma replay_changes_keeps:
  "replay_changes env sy chs fs w = (Inr fs', w') \<Longrightarrow> set fs \<subseteq> set fs'"
proof (induction chs arbitrary: fs w)
  case Nil
  then show ?case by simp
next
  case (Cons ch chs)
  obtain r1 w1 where s: "replay_change env sy ch fs w = (r1, w1)"
    by (cases "replay_change env sy ch fs w")
  show ?case
  proof (cases r1)
    case (Inl e)
    then show ?thesis using Cons.prems s by simp
  next
    case (Inr fs1)
    have "fs1 = fs @ contribution env sy ch w"
      using s Inr replay_change_files by blast
    moreover have "set fs1 \<subseteq> set fs'"
      using Cons.IH [of fs1 w1] Cons.prems s Inr by simp
    ultimately show ?thesis by auto
  qed
qed

lemma replay_changes_has_written:
  "replay_changes env sy chs fs w = (Inr fs', w') \<Longrightarrow> ch \<in> set chs \<Longrightarrow>
   action ch = ''A'' \<or> action ch = ''M'' \<Longrightarrow> dst_path sy ch \<in> set fs'"
proof (induction chs arbitrary: fs w)
  case Nil
  then show ?case by simp
next
  case (Cons c chs)
  obtain r1 w1 where s: "replay_change env sy c fs w = (r1, w1)"
    by (cases "replay_change env sy c fs w")
  show ?case
  proof (cases r1)
    case (Inl e)
    then show ?thesis using Cons.prems s by simp
  next
    case (Inr fs1)
    have f1: "fs1 = fs @ contribution env sy c w"
      using s Inr replay_change_files by blast
    have rest: "replay_changes env sy chs fs1 w1 = (Inr fs', w')"
      using Cons.prems(1) s Inr by simp
    show ?thesis
    proof (cases "ch = c")
      case True
      then have "dst_path sy ch \<in> set fs1"
        using f1 Cons.prems(3) by (auto simp: contribution_def)
      then show ?thesis using replay_changes_keeps [OF rest] by auto
    next
      case False
      then have "ch \<in> set chs" using Cons.prems(2) by simp
      then show ?thesis using Cons.IH [OF rest _ Cons.prems(3)] by simp
    qed
  qed
qed

lemma C5_run: "sync_changes sim_os demo_syncer (start c5_state) = (True, c5_end)"
  by code_simp

lemma C5_target:
  "map_of (sim_files (ost c5_end)) ''/dst/foo/bar.txt'' = Some ''content at r11''
   \<and> \<not> sim_exists ''/dst/baz.txt'' (ost c5_end)"
  by code_simp

text \<open>
  C5 (as amended). The paths collected for the commit are target paths: a change whose
  replay does not raise adds its target path when it is an add or a modify, and when it
  is a delete whose target path exists; a delete of an absent path adds nothing. So the
  target path of every add and modify record of a replay that did not raise is in the
  list. End to end, on the reference environment with an empty target: the log
  \<open>r10 / A foo/bar.txt / r11 / M foo/bar.txt / r12 / D baz.txt\<close> leaves
  \<open>foo/bar.txt\<close> in the target with the content of the source working copy and no
  \<open>baz.txt\<close>, and the commit is spawned with the target path of \<open>foo/bar.txt\<close>
  twice and without \<open>baz.txt\<close>.
\<close>

theorem C5_files_to_commit:
  "(replay_change env sy ch fs w = (Inr fs', w') \<longrightarrow> fs' = fs @ contribution env sy ch w)
   \<and> (replay_changes env sy chs fs0 w0 = (Inr fsn, wn) \<and> c \<in> set chs
        \<and> (action c = ''A'' \<or> action c = ''M'')
      \<longrightarrow> dst_path sy c \<in> set fsn)
   \<and> sync_changes sim_os demo_syncer (start c5_state) = (True, c5_end)
   \<and> map_of (sim_files (ost c5_end)) ''/dst/foo/bar.txt'' = Some ''content at r11''
   \<and> \<not> sim_exists ''/dst/baz.txt'' (ost c5_end)"
  using replay_change_files [of env sy ch fs w fs' w']
    replay_changes_has_written [of env sy chs fs0 w0 fsn wn c] C5_run C5_target
  by blast

lemma C5_h1: "replay_change sim_os demo_syncer c5_baz [''/dst/foo/bar.txt''] (start c5_state)
    = (Inr [''/dst/foo/bar.txt''],
       snd (replay_change sim_os demo_syncer c5_baz [''/dst/foo/bar.txt''] (start c5_state)))"
  by code_simp

lemma C5_h2: "replay_changes sim_os demo_syncer (parse_log_entry c5_log) [] (start c5_state)
    = (Inr [''/dst/foo/bar.txt'', ''/dst/foo/bar.txt''],
       snd (replay_changes sim_os demo_syncer (parse_log_entry c5_log) [] (start c5_state)))"
  by code_simp

lemma C5_h3: "c5_bar \<in> set (parse_log_entry c5_log)"
  by code_simp

lemma C5_h4: "action c5_bar = ''A'' \<or> action c5_bar = ''M''"
  by code_simp

theorem C5_witness:
  "[''/dst/foo/bar.txt'']
     = [''/dst/foo/bar.txt''] @ contribution sim_os demo_syncer c5_baz (start c5_state)
   \<and> dst_path demo_syncer c5_bar \<in> set [''/dst/foo/bar.txt'', ''/dst/foo/bar.txt'']"
  using C5_files_to_commit
    [where env = sim_os and sy = demo_syncer and ch = c5_baz and fs = "[''/dst/foo/bar.txt'']"
       and w = "start c5_state" and fs' = "[''/dst/foo/bar.txt'']"
       and w' = "snd (replay_change sim_os demo_syncer c5_baz [''/dst/foo/bar.txt'']
                   (start c5_state))"
       and chs = "parse_log_entry c5_log" and ?fs0.0 = "[]" and ?w0.0 = "start c5_state"
       and fsn = "[''/dst/foo/bar.txt'', ''/dst/foo/bar.txt'']"
       and wn = "snd (replay_changes sim_os demo_syncer (parse_log_entry c5_log) []
                   (start c5_state))"
       and c = c5_bar]
    C5_h1 C5_h2 C5_h3 C5_h4
  by blast

text \<open>
  The claim as written fails: the paths collected for the commit do not contain
  \<open>baz.txt\<close>, whose delete found nothing to delete.
\<close>

theorem C5_counterexample:
  "last (trace (snd (sync_changes sim_os demo_syncer (start c5_state))))
     = Spawn [''svn'', ''commit'', ''-m'', ''Synced changes from repo1'',
              ''/dst/foo/bar.txt'', ''/dst/foo/bar.txt''] (Some ''/dst'') []"
  by code_simp

section \<open>Which failed commands end the run\<close>



















section \<open>A record that fails during the replay\<close>























section \<open>Path entries of the block parser\<close>

lemma find_sub_Some_occurs: "find_sub pat s = Some (b, a) \<Longrightarrow> s = b @ pat @ a"
proof (induction s arbitrary: b a)
  case Nil
  then show ?case by (simp split: if_splits)
next
  case (Cons c cs)
  show ?case
  proof (cases "startswith (c # cs) pat")
    case True
    then have "c # cs = pat @ drop (length pat) (c # cs)"
      unfolding startswith_def by (metis append_take_drop_id)
    then show ?thesis using Cons.prems True by simp
  next
    case False
    then obtain b' where "find_sub pat cs = Some (b', a)" "b = c # b'"
      using Cons.prems by (auto split: option.splits)
    then show ?thesis using Cons.IH by simp
  qed
qed

lemma startswith_append: "startswith (pat @ v) pat"
  by (simp add: startswith_def)

lemma find_sub_before_free:
  "pat \<noteq> [] \<Longrightarrow> find_sub pat s = Some (b, a) \<Longrightarrow> \<not> occurs pat b"
proof (induction s arbitrary: b a)
  case Nil
  then show ?case by simp
next
  case (Cons c cs)
  show ?case
  proof (cases "startswith (c # cs) pat")
    case True
    then have "b = []" using Cons.prems by simp
    then show ?thesis using Cons.prems(1) by (simp add: occurs_def)
  next
    case False
    then obtain b' where f: "find_sub pat cs = Some (b', a)" and b: "b = c # b'"
      using Cons.prems by (auto split: option.splits)
    have ih: "\<not> occurs pat b'" using Cons.IH [OF Cons.prems(1) f] .
    have cs: "cs = b' @ pat @ a" using find_sub_Some_occurs [OF f] .
    show ?thesis
    proof
      assume "occurs pat b"
      then obtain u v where uv: "c # b' = u @ pat @ v" using b by (auto simp: occurs_def)
      show False
      proof (cases u)
        case Nil
        then have "c # cs = pat @ (v @ pat @ a)" using uv cs by simp
        then have "startswith (c # cs) pat" using startswith_append by metis
        then show False using False by simp
      next
        case (Cons x u')
        then have "b' = u' @ pat @ v" using uv by simp
        then show False using ih by (auto simp: occurs_def)
      qed
    qed
  qed
qed

lemma occurs_Cons: "occurs pat cs \<Longrightarrow> occurs pat (c # cs)"
  unfolding occurs_def by (metis append_Cons)

lemma search_path_value_None: "\<not> occurs ''</path>'' g \<Longrightarrow> search_path_value g = None"
proof (induction g)
  case Nil
  show ?case by simp
next
  case (Cons c cs)
  have n: "\<not> occurs ''</path>'' cs" using Cons.prems occurs_Cons by blast
  have "find_sub ''</path>'' cs = None"
  proof (cases "find_sub ''</path>'' cs")
    case None
    then show ?thesis .
  next
    case (Some ba)
    obtain b a where "ba = (b, a)" by (cases ba)
    then have "cs = b @ ''</path>'' @ a" using Some find_sub_Some_occurs by blast
    then have "occurs ''</path>'' cs" unfolding occurs_def by blast
    then show ?thesis using n by simp
  qed
  then show ?case using Cons.IH [OF n] by simp
qed

lemma findall_tag_free:
  "ctag \<noteq> [] \<Longrightarrow> g \<in> set (findall_tag otag ctag s) \<Longrightarrow> \<not> occurs ctag g"
proof (induction otag ctag s rule: findall_tag.induct)
  case (1 otag ctag s)
  have "g \<in> set (case find_sub otag s of
        None \<Rightarrow> []
      | Some (b1, r1) \<Rightarrow>
          (case find_sub ''>'' r1 of
             None \<Rightarrow> []
           | Some (b2, r2) \<Rightarrow>
               (case find_sub ctag r2 of
                  None \<Rightarrow> []
                | Some (g0, r3) \<Rightarrow> g0 # findall_tag otag ctag r3)))"
    using "1.prems"(2) findall_tag.simps [of otag ctag s] by simp
  then obtain b1 r1 b2 r2 g0 r3 where
    f1: "find_sub otag s = Some (b1, r1)" and f2: "find_sub ''>'' r1 = Some (b2, r2)"
    and f3: "find_sub ctag r2 = Some (g0, r3)"
    and g: "g = g0 \<or> g \<in> set (findall_tag otag ctag r3)"
    by (auto split: option.splits) metis+
  from g show ?case
  proof
    assume "g = g0"
    then show ?thesis using find_sub_before_free [OF "1.prems"(1) f3] by simp
  next
    assume "g \<in> set (findall_tag otag ctag r3)"
    then show ?thesis
      using "1.IH" [OF f1 refl f2 refl f3 refl "1.prems"(1)] by simp
  qed
qed

lemma parse_path_entry_raises:
  "g \<in> set (findall_tag otag ''</path>'' s) \<Longrightarrow> parse_path_entry g = Inl AttributeError"
proof -
  assume "g \<in> set (findall_tag otag ''</path>'' s)"
  then have "\<not> occurs ''</path>'' g" using findall_tag_free [of "''</path>''" g otag s] by simp
  then show ?thesis by (simp add: parse_path_entry_def search_path_value_None Let_def)
qed

lemma parse_path_entries_raises:
  "\<forall>g \<in> set es. parse_path_entry g = Inl AttributeError \<Longrightarrow>
   parse_path_entries es acc = (if es = [] then Inr acc else Inl AttributeError)"
  by (cases es) simp_all

lemma parse_block_cases:
  "parse_block block = Inl AttributeError
   \<or> parse_block block = Inr []
   \<or> (\<exists>r. parse_block block = Inr [\<lparr>commit_revision = r, changed_paths = []\<rparr>])"
proof -
  have "parse_path_entries (findall_tag ''<path'' ''</path>'' pb) []
      = (if findall_tag ''<path'' ''</path>'' pb = [] then Inr [] else Inl AttributeError)" for pb
    by (rule parse_path_entries_raises) (simp add: parse_path_entry_raises)
  then show ?thesis
    by (auto simp: parse_block_def split: option.splits)
qed

lemma parse_blocks_no_paths:
  "no_paths acc \<Longrightarrow>
   (case parse_blocks bs acc of Inl e \<Rightarrow> e = AttributeError | Inr cs \<Rightarrow> no_paths cs)"
proof (induction bs arbitrary: acc)
  case Nil
  then show ?case by simp
next
  case (Cons b bs)
  from parse_block_cases [of b] show ?case
  proof (elim disjE exE)
    assume "parse_block b = Inl AttributeError"
    then show ?thesis by simp
  next
    assume "parse_block b = Inr []"
    then show ?thesis using Cons.IH [OF Cons.prems] by simp
  next
    fix r assume p: "parse_block b = Inr [\<lparr>commit_revision = r, changed_paths = []\<rparr>]"
    have "no_paths (acc @ [\<lparr>commit_revision = r, changed_paths = []\<rparr>])"
      using Cons.prems by (simp add: no_paths_def)
    then show ?thesis using Cons.IH p by simp
  qed
qed

text \<open>
  C10 (the code departs from it). The block parser means to upper-case the action of
  each path entry (\<open>upper\<close> turns \<open>add\<close> and \<open>Delete\<close> into \<open>ADD\<close> and
  \<open>DELETE\<close>), but it never gets there: it looks for \<open>>...</path>\<close> inside the text
  that \<open>findall\<close> captured between \<open>>\<close> and \<open></path>\<close>, which cannot contain
  \<open></path>\<close>, so \<open>.group(1)\<close> is called on \<open>None\<close> for every path entry. For every
  output of \<open>svn log --xml\<close> the parser either raises \<open>AttributeError\<close> or returns
  commits without any changed path; on an entry with \<open>action="add"\<close> it raises, and
  so does \<open>get_recent_commits\<close>. The captured text of that entry is the path alone:
  neither \<open>>...</path>\<close> nor the action attribute is to be found in it.
\<close>

theorem C10_no_path_entry_is_ever_accepted:
  "(case parse_xml_log out of Inl e \<Rightarrow> e = AttributeError | Inr cs \<Rightarrow> no_paths cs)
   \<and> parse_xml_log c10_xml = Inl AttributeError
   \<and> fst (get_recent_commits sim_os demo_sync (repo1_url demo_sync) 100 (start c10_state))
       = Inl AttributeError
   \<and> findall_tag ''<path'' ''</path>'' (''<path action='' @ [CHR 0x22] @ ''add'' @ [CHR 0x22]
         @ ''>/trunk/a.txt</path>'') = [''/trunk/a.txt'']
   \<and> search_path_value ''/trunk/a.txt'' = None
   \<and> search_attr action_pre is_word ''/trunk/a.txt'' = None
   \<and> upper ''add'' = ''ADD'' \<and> upper ''Delete'' = ''DELETE''"
proof (intro conjI)
  show "findall_tag ''<path'' ''</path>'' (''<path action='' @ [CHR 0x22] @ ''add'' @ [CHR 0x22]
         @ ''>/trunk/a.txt</path>'') = [''/trunk/a.txt'']"
    by code_simp
  show "search_path_value ''/trunk/a.txt'' = None" by code_simp
  show "search_attr action_pre is_word ''/trunk/a.txt'' = None" by code_simp
  show "fst (get_recent_commits sim_os demo_sync (repo1_url demo_sync) 100 (start c10_state))
       = Inl AttributeError"
    by code_simp
  show "case parse_xml_log out of Inl e \<Rightarrow> e = AttributeError | Inr cs \<Rightarrow> no_paths cs"
    unfolding parse_xml_log_def by (rule parse_blocks_no_paths) (simp add: no_paths_def)
  show "parse_xml_log c10_xml = Inl AttributeError" by code_simp
  show "upper ''add'' = ''ADD''" by code_simp
  show "upper ''Delete'' = ''DELETE''" by code_simp
qed

end
